theory Spec2Isabelle
  imports Complex_Main "HOL-Library.Log_Nat" "HOL-Library.Product_Lexorder"
begin

section \<open>JavaScript numbers and values\<close>

text \<open>
  A JavaScript number is an IEEE 754 double. A finite double is kept as the rational
  number it stands for; the three other values are constructors of their own. The zero
  with a minus sign is not told apart from zero: the code never divides by a result and
  never prints one, and \<open>-0 === 0\<close>.
\<close>

datatype number = Num rat | PosInfinity | NegInfinity | NaN

subsection \<open>Rounding to a binary format\<close>

definition pow2 :: "int \<Rightarrow> rat" where
  "pow2 k = (if 0 \<le> k then 2 ^ nat k else 1 / 2 ^ nat (- k))"

text \<open>The exponent \<open>e\<close> with \<open>2 ^ e \<le> x < 2 ^ (e + 1)\<close>, for a positive \<open>x\<close>.\<close>

definition ilog2 :: "rat \<Rightarrow> int" where
  "ilog2 x = (let (n, d) = quotient_of x; k = bitlen n - bitlen d
              in if pow2 k \<le> x then k else k - 1)"

definition round_half_even :: "rat \<Rightarrow> int" where
  "round_half_even x =
     (let f = \<lfloor>x\<rfloor>; r = x - of_int f
      in if r < 1 / 2 then f else if 1 / 2 < r then f + 1 else if even f then f else f + 1)"

text \<open>
  Round to nearest, ties to even, in the binary format with \<open>p\<close> bits of precision whose
  smallest positive value is \<open>2 ^ emin\<close> and whose values stay below \<open>2 ^ emax\<close>: the
  value that every arithmetic operation of the format returns for the exact result
  \<open>x\<close>.
\<close>

definition binary_of :: "nat \<Rightarrow> int \<Rightarrow> int \<Rightarrow> rat \<Rightarrow> number" where
  "binary_of p emin emax x =
     (if x = 0 then Num 0
      else let a = \<bar>x\<bar>;
               q = max (ilog2 a - (int p - 1)) emin;
               m = round_half_even (a / pow2 q);
               y = of_int m * pow2 q
           in if pow2 emax \<le> y then (if 0 < x then PosInfinity else NegInfinity)
              else Num (if 0 < x then y else - y))"

text \<open>
  A double (binary64); \<open>double_of (39 / 100)\<close> is what the literal \<open>0.39\<close> denotes.
  \<open>float4_of\<close> is the same for the database's \<open>real\<close> columns (binary32).
\<close>

definition double_of :: "rat \<Rightarrow> number" where
  "double_of = binary_of 53 (- 1074) 1024"

definition float4_of :: "rat \<Rightarrow> number" where
  "float4_of = binary_of 24 (- 149) 128"

subsection \<open>The operators\<close>

text \<open>What a property read on an object literal can give back.\<close>

datatype jsval = Undefined | Number number | Object

text \<open>
  \<open>ToNumber\<close> as the operator \<open>*\<close> applies it to an operand: \<open>undefined\<close> becomes
  \<open>NaN\<close>; the functions and the object that \<open>Object.prototype\<close> holds have no numeric
  value and become \<open>NaN\<close> as well.
\<close>

fun ToNumber :: "jsval \<Rightarrow> number" where
  "ToNumber Undefined = NaN"
| "ToNumber (Number n) = n"
| "ToNumber Object = NaN"

text \<open>The sign of a number that is not \<open>NaN\<close>: \<open>-1\<close>, \<open>0\<close> or \<open>1\<close>.\<close>

fun js_sign :: "number \<Rightarrow> int" where
  "js_sign (Num a) = (if a < 0 then - 1 else if a = 0 then 0 else 1)"
| "js_sign PosInfinity = 1"
| "js_sign NegInfinity = - 1"
| "js_sign NaN = 0"

definition signed_infinity :: "int \<Rightarrow> number" where
  "signed_infinity s = (if s < 0 then NegInfinity else PosInfinity)"

text \<open>
  Addition of two finite numbers rounds the exact sum; adding zero is exact and is
  written out as a case of its own.
\<close>

fun js_add :: "number \<Rightarrow> number \<Rightarrow> number" where
  "js_add (Num a) (Num b) =
     (if b = 0 then Num a else if a = 0 then Num b else double_of (a + b))"
| "js_add NaN y = NaN"
| "js_add x NaN = NaN"
| "js_add PosInfinity NegInfinity = NaN"
| "js_add NegInfinity PosInfinity = NaN"
| "js_add PosInfinity y = PosInfinity"
| "js_add x PosInfinity = PosInfinity"
| "js_add NegInfinity y = NegInfinity"
| "js_add x NegInfinity = NegInfinity"

fun js_neg :: "number \<Rightarrow> number" where
  "js_neg (Num a) = Num (- a)"
| "js_neg PosInfinity = NegInfinity"
| "js_neg NegInfinity = PosInfinity"
| "js_neg NaN = NaN"

definition js_sub :: "number \<Rightarrow> number \<Rightarrow> number" where
  "js_sub x y = js_add x (js_neg y)"

fun js_mul :: "number \<Rightarrow> number \<Rightarrow> number" where
  "js_mul (Num a) (Num b) = double_of (a * b)"
| "js_mul NaN y = NaN"
| "js_mul x NaN = NaN"
| "js_mul x y =
     (if js_sign x = 0 \<or> js_sign y = 0 then NaN
      else signed_infinity (js_sign x * js_sign y))"

text \<open>
  Division: a finite number divided by zero is an infinity (\<open>NaN\<close> for \<open>0 / 0\<close>), not
  an exception.
\<close>

fun js_div :: "number \<Rightarrow> number \<Rightarrow> number" where
  "js_div (Num a) (Num b) =
     (if b \<noteq> 0 then double_of (a / b)
      else if a = 0 then NaN
      else signed_infinity (js_sign (Num a)))"
| "js_div NaN y = NaN"
| "js_div x NaN = NaN"
| "js_div (Num a) y = Num 0"
| "js_div x (Num b) =
     (if b < 0 then js_neg x else x)"
| "js_div x y = NaN"

text \<open>The comparison \<open>x > y\<close>: false as soon as one side is \<open>NaN\<close>.\<close>

fun js_gt :: "number \<Rightarrow> number \<Rightarrow> bool" where
  "js_gt (Num a) (Num b) = (b < a)"
| "js_gt NaN y = False"
| "js_gt x NaN = False"
| "js_gt PosInfinity y = (y \<noteq> PosInfinity)"
| "js_gt x NegInfinity = (x \<noteq> NegInfinity)"
| "js_gt x y = False"

text \<open>
  \<open>Math.round\<close>: the nearest integer, a tie going towards plus infinity; the values
  that are not finite are returned as they are. The result is exact: a double of
  magnitude \<open>2 ^ 52\<close> or more is an integer already.
\<close>

fun Math_round :: "number \<Rightarrow> number" where
  "Math_round (Num a) = Num (of_int \<lfloor>a + 1 / 2\<rfloor>)"
| "Math_round x = x"

text \<open>The idiom \<open>Math.round(x * 100) / 100\<close> both calculators end with.\<close>

definition round2 :: "number \<Rightarrow> number" where
  "round2 x = js_div (Math_round (js_mul x (Num 100))) (Num 100)"

text \<open>
  Truthiness, as \<open>if (v)\<close> and \<open>v || 0\<close> test it: a number is falsy when it is zero or
  \<open>NaN\<close>, a string when it is empty. An optional field is \<open>None\<close> when it is
  \<open>undefined\<close> or \<open>null\<close>, and then falsy.
\<close>

fun truthy :: "number \<Rightarrow> bool" where
  "truthy (Num a) = (a \<noteq> 0)"
| "truthy NaN = False"
| "truthy x = True"

section \<open>The emission calculators\<close>

subsection \<open>The factor table\<close>

text \<open>
  \<open>EMISSION_FACTORS\<close> is the same literal in \<open>carbonCalculations.ts\<close> and in the
  routes module. Every decimal literal stands for the double nearest to it.
\<close>

definition EMISSION_FACTORS_transport :: "(string \<times> number) list" where
  "EMISSION_FACTORS_transport =
     [(''car_gasoline'', double_of (39 / 100)),
      (''car_electric'', double_of (13 / 100)),
      (''bus'', double_of (7 / 100)),
      (''train'', double_of (45 / 1000)),
      (''bike'', Num 0),
      (''walking'', Num 0)]"

definition EMISSION_FACTORS_energy_electricity :: number where
  "EMISSION_FACTORS_energy_electricity = double_of (37 / 100)"

definition EMISSION_FACTORS_energy_naturalGas :: number where
  "EMISSION_FACTORS_energy_naturalGas = double_of (53 / 10)"

definition EMISSION_FACTORS_food_beef :: number where
  "EMISSION_FACTORS_food_beef = double_of (304 / 10)"

definition EMISSION_FACTORS_food_chicken :: number where
  "EMISSION_FACTORS_food_chicken = double_of (42 / 10)"

definition EMISSION_FACTORS_food_vegetables :: number where
  "EMISSION_FACTORS_food_vegetables = Num 1"

text \<open>
  The table is an object literal, so a read \<open>EMISSION_FACTORS.transport[key]\<close> that
  finds no own property goes on to \<open>Object.prototype\<close>. These are the names it finds
  there; under every one of them sits a function or an object, never a number.
\<close>

definition Object_prototype_keys :: "string list" where
  "Object_prototype_keys =
     [''constructor'', ''hasOwnProperty'', ''isPrototypeOf'', ''propertyIsEnumerable'',
      ''toLocaleString'', ''toString'', ''valueOf'', ''__proto__'',
      ''__defineGetter__'', ''__defineSetter__'', ''__lookupGetter__'',
      ''__lookupSetter__'']"

definition transport_factor :: "string \<Rightarrow> jsval" where
  "transport_factor key =
     (case map_of EMISSION_FACTORS_transport key of
        Some f \<Rightarrow> Number f
      | None \<Rightarrow> if key \<in> set Object_prototype_keys then Object else Undefined)"

subsection \<open>Input and output\<close>

text \<open>
  \<open>ActivityData\<close>: every field is optional, and a numeric field holds any number, the
  infinities and \<open>NaN\<close> included.
\<close>

record ActivityData =
  transportType :: "string option"
  transportDistance :: "number option"
  electricityUsage :: "number option"
  naturalGasUsage :: "number option"
  beefServings :: "number option"
  chickenServings :: "number option"
  vegetableServings :: "number option"

record EmissionResults =
  transportEmissions :: number
  energyEmissions :: number
  foodEmissions :: number
  totalEmissions :: number

subsection \<open>The three sections of the function body\<close>

text \<open>
  Each definition below is one commented section of \<open>calculateEmissions\<close>: the value
  of the local variable when the section ends. The energy and food sections read the
  same in both modules; the transport section does not.
\<close>

text \<open>Client (\<open>carbonCalculations.ts\<close>): the factor is used only when it is defined.\<close>

definition transport_section_client :: "ActivityData \<Rightarrow> number" where
  "transport_section_client d =
     (case (transportType d, transportDistance d) of
        (Some ty, Some distance) \<Rightarrow>
          if ty \<noteq> [] \<and> truthy distance then
            (let factor = transport_factor ty in
             if factor \<noteq> Undefined then js_mul (ToNumber factor) distance else Num 0)
          else Num 0
      | _ \<Rightarrow> Num 0)"

text \<open>Server (routes module): the factor is multiplied whatever the lookup gave.\<close>

definition transport_section_server :: "ActivityData \<Rightarrow> number" where
  "transport_section_server d =
     (case (transportType d, transportDistance d) of
        (Some ty, Some distance) \<Rightarrow>
          if ty \<noteq> [] \<and> truthy distance then
            (let factor = transport_factor ty in
             js_mul (ToNumber factor) distance)
          else Num 0
      | _ \<Rightarrow> Num 0)"

definition energy_section :: "ActivityData \<Rightarrow> number" where
  "energy_section d =
     (let e0 = Num 0;
          e1 = (case electricityUsage d of
                  Some x \<Rightarrow>
                    if truthy x
                    then js_add e0 (js_mul EMISSION_FACTORS_energy_electricity x)
                    else e0
                | None \<Rightarrow> e0);
          e2 = (case naturalGasUsage d of
                  Some x \<Rightarrow>
                    if truthy x
                    then js_add e1 (js_mul EMISSION_FACTORS_energy_naturalGas x)
                    else e1
                | None \<Rightarrow> e1)
      in e2)"

definition food_section :: "ActivityData \<Rightarrow> number" where
  "food_section d =
     (let f0 = Num 0;
          f1 = (case beefServings d of
                  Some n \<Rightarrow>
                    if truthy n
                    then js_add f0 (js_mul (js_mul EMISSION_FACTORS_food_beef (Num (1 / 2))) n)
                    else f0
                | None \<Rightarrow> f0);
          f2 = (case chickenServings d of
                  Some n \<Rightarrow>
                    if truthy n
                    then js_add f1
                      (js_mul (js_mul EMISSION_FACTORS_food_chicken (double_of (2 / 10))) n)
                    else f1
                | None \<Rightarrow> f1);
          f3 = (case vegetableServings d of
                  Some n \<Rightarrow>
                    if truthy n
                    then js_add f2
                      (js_mul (js_mul EMISSION_FACTORS_food_vegetables (double_of (15 / 100))) n)
                    else f2
                | None \<Rightarrow> f2)
      in f3)"

subsection \<open>The two calculators\<close>

text \<open>\<open>calculateEmissions\<close> of \<open>client/src/lib/carbonCalculations.ts\<close>.\<close>

definition calculateEmissions :: "ActivityData \<Rightarrow> EmissionResults" where
  "calculateEmissions d =
     (let transportEmissions = transport_section_client d;
          energyEmissions = energy_section d;
          foodEmissions = food_section d;
          totalEmissions = js_add (js_add transportEmissions energyEmissions) foodEmissions
      in \<lparr> transportEmissions = round2 transportEmissions,
           energyEmissions = round2 energyEmissions,
           foodEmissions = round2 foodEmissions,
           totalEmissions = round2 totalEmissions \<rparr>)"

text \<open>\<open>calculateEmissions\<close> of the routes module, called by \<open>POST /api/activities\<close>.\<close>

definition calculateEmissions_server :: "ActivityData \<Rightarrow> EmissionResults" where
  "calculateEmissions_server d =
     (let transportEmissions = transport_section_server d;
          energyEmissions = energy_section d;
          foodEmissions = food_section d;
          totalEmissions = js_add (js_add transportEmissions energyEmissions) foodEmissions
      in \<lparr> transportEmissions = round2 transportEmissions,
           energyEmissions = round2 energyEmissions,
           foodEmissions = round2 foodEmissions,
           totalEmissions = round2 totalEmissions \<rparr>)"

text \<open>The input in which every field is absent.\<close>

definition no_activity :: ActivityData where
  "no_activity = \<lparr> transportType = None, transportDistance = None, electricityUsage = None,
      naturalGasUsage = None, beefServings = None, chickenServings = None,
      vegetableServings = None \<rparr>"

text \<open>
  What an optional amount contributes to a sum: zero when the code treats it as missing,
  that is when it is absent, zero or \<open>NaN\<close>.
\<close>

definition amount :: "number option \<Rightarrow> number" where
  "amount v = (case v of None \<Rightarrow> Num 0 | Some x \<Rightarrow> if truthy x then x else Num 0)"

text \<open>An input for the examples: 1.01 miles by gasoline car and 1.01 kWh of electricity.\<close>

definition short_trip :: ActivityData where
  "short_trip = no_activity\<lparr> transportType := Some ''car_gasoline'',
     transportDistance := Some (double_of (101 / 100)),
     electricityUsage := Some (double_of (101 / 100)) \<rparr>"

text \<open>
  A second one: 1.5 miles by gasoline car, 3.5 kWh of electricity and half a serving of
  vegetables.
\<close>

definition light_day :: ActivityData where
  "light_day = no_activity\<lparr> transportType := Some ''car_gasoline'',
     transportDistance := Some (Num (3 / 2)),
     electricityUsage := Some (Num (7 / 2)),
     vegetableServings := Some (Num (1 / 2)) \<rparr>"

text \<open>Another one: 10 miles by a means of transport that the table does not list.\<close>

definition plane_trip :: ActivityData where
  "plane_trip = no_activity\<lparr> transportType := Some ''plane'',
     transportDistance := Some (Num 10) \<rparr>"

section \<open>The dashboard's reduction percentage\<close>

text \<open>
  The conditional expression of the \<open>/api/dashboard\<close> handler, on the two numbers that
  \<open>getEmissionsLastMonth\<close> and \<open>getEmissionsThisMonth\<close> returned.
\<close>

definition reductionPercentage :: "number \<Rightarrow> number \<Rightarrow> number" where
  "reductionPercentage emissionsLastMonth emissionsThisMonth =
     (if js_gt emissionsLastMonth (Num 0)
      then Math_round
             (js_mul
                (js_div (js_sub emissionsLastMonth emissionsThisMonth) emissionsLastMonth)
                (Num 100))
      else Num 0)"

section \<open>Storage: rank and leaderboard\<close>

subsection \<open>Tables and surroundings\<close>

text \<open>
  The two tables the queries read, each as the list of its rows in the order in which
  the database happens to produce them (an order SQL leaves open, so nothing below
  relies on it). Of an activity only the columns the queries read are kept; of a user,
  all but the two timestamps. A date is a day number. \<open>total_emissions\<close> is a
  \<open>real\<close> column: a binary32 value, an infinity or \<open>NaN\<close>; the driver hands such a
  value to JavaScript and takes it back without changing which value it is.
  \<open>users.id\<close> is the primary key.
\<close>

type_synonym date = int

record User =
  user_id :: string
  user_email :: "string option"
  user_firstName :: "string option"
  user_lastName :: "string option"
  user_profileImageUrl :: "string option"

record Activity =
  act_userId :: string
  act_date :: date
  act_totalEmissions :: number

record Database =
  users :: "User list"
  activities :: "Activity list"

definition primary_key_ok :: "Database \<Rightarrow> bool" where
  "primary_key_ok db = distinct (map user_id (users db))"

text \<open>
  What a call finds around it. \<open>monthFirst\<close> and \<open>monthLast\<close> are the first and the last
  day of the current month of the server's local calendar, the days of
  \<open>new Date(y, m, 1)\<close> and \<open>new Date(y, m + 1, 0)\<close>; \<open>offsetFirst\<close> and \<open>offsetLast\<close> are
  the offsets of the server's time zone from UTC, in minutes and positive to the east,
  at local midnight of these two days. \<open>float4pl\<close> is the addition with which the
  database accumulates \<open>sum(...)\<close> over a \<open>real\<close> column; it is left open.
\<close>

record Server =
  monthFirst :: date
  monthLast :: date
  offsetFirst :: int
  offsetLast :: int
  float4pl :: "number \<Rightarrow> number \<Rightarrow> number"

record LeaderboardEntry =
  entry_user :: User
  entry_totalEmissions :: number
  entry_rank :: nat

subsection \<open>The month window\<close>

text \<open>
  \<open>d.toISOString().split('T')[0]\<close> for the date object \<open>d\<close> of local midnight of a day:
  the instant lies \<open>offset\<close> minutes before midnight UTC of that day, and the string is
  the UTC date of the instant.
\<close>

definition toISODate :: "date \<Rightarrow> int \<Rightarrow> date" where
  "toISODate day offset = (day * 1440 - offset) div 1440"

definition startOfMonth :: "Server \<Rightarrow> date" where
  "startOfMonth srv = toISODate (monthFirst srv) (offsetFirst srv)"

definition endOfMonth :: "Server \<Rightarrow> date" where
  "endOfMonth srv = toISODate (monthLast srv) (offsetLast srv)"

subsection \<open>SQL building blocks\<close>

text \<open>\<open>gte(activities.date, start)\<close> and \<open>lte(activities.date, end)\<close>.\<close>

definition date_between :: "date \<Rightarrow> date \<Rightarrow> Activity \<Rightarrow> bool" where
  "date_between lo hi a = (lo \<le> act_date a \<and> act_date a \<le> hi)"

text \<open>
  \<open>sum(...)\<close> of a column that is never \<open>NULL\<close>: \<open>NULL\<close> over no rows, otherwise the
  first value with the others added to it one by one.
\<close>

definition sql_sum :: "(number \<Rightarrow> number \<Rightarrow> number) \<Rightarrow> number list \<Rightarrow> number option" where
  "sql_sum add xs = (case xs of [] \<Rightarrow> None | x # rest \<Rightarrow> Some (foldl add x rest))"

text \<open>\<open>v || 0\<close> on a query result: \<open>null\<close>, \<open>undefined\<close>, zero and \<open>NaN\<close> all give zero.\<close>

definition or_zero :: "number option \<Rightarrow> number" where
  "or_zero v = (case v of None \<Rightarrow> Num 0 | Some x \<Rightarrow> if truthy x then x else Num 0)"

text \<open>
  The order of the database on \<open>real\<close> values, used by \<open><\<close> and by \<open>ORDER BY\<close>: as on
  numbers, with \<open>NaN\<close> equal to itself and above everything else.
\<close>

fun pg_key :: "number \<Rightarrow> nat \<times> rat" where
  "pg_key NegInfinity = (0, 0)"
| "pg_key (Num a) = (1, a)"
| "pg_key PosInfinity = (2, 0)"
| "pg_key NaN = (3, 0)"

definition pg_less :: "number \<Rightarrow> number \<Rightarrow> bool" where
  "pg_less x y = (pg_key x < pg_key y)"

text \<open>\<open>GROUP BY\<close>: one group for each key that occurs, holding the rows with that key.\<close>

definition group_by :: "('r \<Rightarrow> 'k) \<Rightarrow> 'r list \<Rightarrow> ('k \<times> 'r list) list" where
  "group_by key rows =
     map (\<lambda>k. (k, filter (\<lambda>r. key r = k) rows)) (remdups (map key rows))"

text \<open>
  \<open>users LEFT JOIN activities ON users.id = activities.user_id\<close>: a user with no
  activity keeps one row with \<open>NULL\<close> on the activity side.
\<close>

definition left_join :: "User list \<Rightarrow> Activity list \<Rightarrow> (User \<times> Activity option) list" where
  "left_join us as =
     concat (map (\<lambda>u. case filter (\<lambda>a. user_id u = act_userId a) as of
                         [] \<Rightarrow> [(u, None)]
                       | ms \<Rightarrow> map (\<lambda>a. (u, Some a)) ms) us)"

text \<open>
  The \<open>WHERE\<close> clause of the leaderboard query tests \<open>activities.date\<close>: on a row
  whose activity side is \<open>NULL\<close> the test is \<open>NULL\<close> and the row is dropped, so every
  row that is left has an activity.
\<close>

definition where_date_between ::
  "date \<Rightarrow> date \<Rightarrow> (User \<times> Activity option) list \<Rightarrow> (User \<times> Activity) list" where
  "where_date_between lo hi rows =
     concat (map (\<lambda>(u, oa). case oa of
                                None \<Rightarrow> []
                              | Some a \<Rightarrow> if date_between lo hi a then [(u, a)] else [])
               rows)"

subsection \<open>The queries\<close>

text \<open>
  The second query of \<open>getUserRank\<close>: the groups that pass \<open>HAVING\<close>, each as its
  key and the \<open>count()\<close> the query selects. A group is never empty, so its sum is
  never \<open>NULL\<close>; a \<open>NULL\<close> would fail the comparison.
\<close>

definition betterUsers :: "Server \<Rightarrow> Database \<Rightarrow> number \<Rightarrow> (string \<times> nat) list" where
  "betterUsers srv db userTotal =
     map (\<lambda>(k, rows). (k, length rows))
       (filter (\<lambda>(k, rows). case sql_sum (float4pl srv) (map act_totalEmissions rows) of
                               None \<Rightarrow> False
                             | Some s \<Rightarrow> pg_less s userTotal)
          (group_by act_userId
             (filter (date_between (startOfMonth srv) (endOfMonth srv)) (activities db))))"

definition getUserRank :: "Server \<Rightarrow> Database \<Rightarrow> string \<Rightarrow> nat" where
  "getUserRank srv db userId =
     (let userEmissions = sql_sum (float4pl srv) (map act_totalEmissions
                            (filter (\<lambda>a. act_userId a = userId
                                         \<and> date_between (startOfMonth srv) (endOfMonth srv) a)
                               (activities db)));
          userTotal = or_zero userEmissions
      in length (betterUsers srv db userTotal) + 1)"

text \<open>
  The rows of the leaderboard query before \<open>ORDER BY\<close>: one for each group, with the
  user of the group and the sum over its rows.
\<close>

definition leaderboard_groups :: "Server \<Rightarrow> Database \<Rightarrow> (User \<times> number) list" where
  "leaderboard_groups srv db =
     concat (map (\<lambda>(k, rows). case rows of
                                  [] \<Rightarrow> []
                                | (u, a) # rest \<Rightarrow>
                                    [(u, foldl (float4pl srv) (act_totalEmissions a)
                                           (map (\<lambda>(u', a'). act_totalEmissions a') rest))])
               (group_by (\<lambda>(u, a). user_id u)
                  (where_date_between (startOfMonth srv) (endOfMonth srv)
                     (left_join (users db) (activities db)))))"

text \<open>
  \<open>ORDER BY sum(...) ASC\<close> and \<open>LIMIT\<close>. Rows with equal sums come out in the order
  in which the groups came in. The query builder writes the \<open>LIMIT\<close> clause only for
  a number that is not negative; with a negative one the query has no limit.
\<close>

definition leaderboard_query :: "Server \<Rightarrow> Database \<Rightarrow> int \<Rightarrow> (User \<times> number) list" where
  "leaderboard_query srv db limit =
     (let ordered = sort_key (\<lambda>row. pg_key (snd row)) (leaderboard_groups srv db)
      in if 0 \<le> limit then take (nat limit) ordered else ordered)"

text \<open>\<open>result.map((row, index) => ...)\<close>: the rank is the index plus one.\<close>

definition rank_rows :: "(User \<times> number) list \<Rightarrow> LeaderboardEntry list" where
  "rank_rows result =
     map (\<lambda>(row, index).
            \<lparr> entry_user = fst row,
              entry_totalEmissions = or_zero (Some (snd row)),
              entry_rank = index + 1 \<rparr>)
       (zip result [0..<length result])"

text \<open>\<open>getLeaderboard\<close>; the default of its parameter is 10.\<close>

definition getLeaderboard :: "Server \<Rightarrow> Database \<Rightarrow> int option \<Rightarrow> LeaderboardEntry list" where
  "getLeaderboard srv db limit_arg =
     (let limit = (case limit_arg of None \<Rightarrow> 10 | Some n \<Rightarrow> n)
      in rank_rows (leaderboard_query srv db limit))"

subsection \<open>Notions for the statements\<close>

text \<open>
  A user has a record in the current month: a record whose date is one of the days
  from the first to the last day of the month.
\<close>

definition has_record_in_month :: "Server \<Rightarrow> Database \<Rightarrow> string \<Rightarrow> bool" where
  "has_record_in_month srv db userId =
     (\<exists>a \<in> set (activities db).
        act_userId a = userId \<and> monthFirst srv \<le> act_date a \<and> act_date a \<le> monthLast srv)"

text \<open>
  The rows that one user contributes to the join of the leaderboard query and that pass
  its \<open>WHERE\<close> clause.
\<close>

definition month_rows :: "Server \<Rightarrow> Database \<Rightarrow> User \<Rightarrow> (User \<times> Activity) list" where
  "month_rows srv db u =
     map (Pair u)
       (filter (\<lambda>a. user_id u = act_userId a
                    \<and> date_between (startOfMonth srv) (endOfMonth srv) a)
          (activities db))"

subsection \<open>Examples\<close>

text \<open>A user row that holds nothing but its key.\<close>

definition user_named :: "string \<Rightarrow> User" where
  "user_named uid = \<lparr> user_id = uid, user_email = None, user_firstName = None,
     user_lastName = None, user_profileImageUrl = None \<rparr>"

text \<open>Addition of binary32 values, for the examples.\<close>

fun float4_add :: "number \<Rightarrow> number \<Rightarrow> number" where
  "float4_add (Num a) (Num b) = float4_of (a + b)"
| "float4_add x y = js_add x y"

text \<open>
  October 2025, with the days counted from 30 September (day 0): the month is the days
  1 to 31. Once on a server whose clock runs on UTC, once on a server in Berlin, where
  the offset is two hours on 1 October and one hour on 31 October.
\<close>

definition october_utc :: Server where
  "october_utc = \<lparr> monthFirst = 1, monthLast = 31, offsetFirst = 0, offsetLast = 0,
     float4pl = float4_add \<rparr>"

definition october_berlin :: Server where
  "october_berlin = \<lparr> monthFirst = 1, monthLast = 31, offsetFirst = 120, offsetLast = 60,
     float4pl = float4_add \<rparr>"

section \<open>Evaluating the arithmetic\<close>

declare js_add.simps(1) [simp del] js_mul.simps(1) [simp del] js_div.simps(1) [simp del]
  Math_round.simps(1) [simp del]

lemma pow2_powi: "pow2 k = 2 powi k"
  by (simp add: pow2_def power_int_def inverse_eq_divide power_one_over)

lemma pow2_pos: "0 < pow2 k"
  by (simp add: pow2_powi zero_less_power_int)

lemma pow2_add: "pow2 (a + b) = pow2 a * pow2 b"
  by (simp add: pow2_powi power_int_add)

lemma pow2_mono: "a \<le> b \<Longrightarrow> pow2 a \<le> pow2 b"
  by (simp add: pow2_powi power_int_increasing)

lemma pow2_numeral:
  "pow2 (numeral n) = 2 ^ numeral n"
  "pow2 (- numeral n) = 1 / 2 ^ numeral n"
  "pow2 0 = 1" "pow2 1 = 2" "pow2 (- 1) = 1 / 2"
  by (simp_all add: pow2_def)

lemma ilog2_bounds:
  assumes "0 < x"
  shows "pow2 (ilog2 x) \<le> x \<and> x < pow2 (ilog2 x + 1)"
proof -
  obtain n d where nd: "quotient_of x = (n, d)"
    by (cases "quotient_of x")
  then have d: "0 < d" and x: "x = of_int n / of_int d"
    by (simp_all add: quotient_of_denom_pos quotient_of_div)
  with assms have n: "0 < n"
    by (simp add: zero_less_divide_iff)
  define k where "k = bitlen n - bitlen d"
  from bitlen_bounds [OF n] have bn: "2 ^ nat (bitlen n - 1) \<le> n" "n < 2 ^ nat (bitlen n)"
    by simp_all
  from bitlen_bounds [OF d] have bd: "2 ^ nat (bitlen d - 1) \<le> d" "d < 2 ^ nat (bitlen d)"
    by simp_all
  have pn: "1 \<le> bitlen n" and pd: "1 \<le> bitlen d"
    using n d by (auto simp: bitlen_alt_def)
  have r1: "pow2 (bitlen n - 1) \<le> of_int n" "of_int n < pow2 (bitlen n)"
    "pow2 (bitlen d - 1) \<le> of_int d" "of_int d < pow2 (bitlen d)"
  proof -
    have "(of_int (2 ^ nat (bitlen n - 1)) :: rat) \<le> of_int n"
      using bn(1) by (simp only: of_int_le_iff)
    then show "pow2 (bitlen n - 1) \<le> of_int n"
      using pn by (simp add: pow2_def)
    have "(of_int n :: rat) < of_int (2 ^ nat (bitlen n))"
      using bn(2) by (simp only: of_int_less_iff)
    then show "of_int n < pow2 (bitlen n)"
      using pn by (simp add: pow2_def)
    have "(of_int (2 ^ nat (bitlen d - 1)) :: rat) \<le> of_int d"
      using bd(1) by (simp only: of_int_le_iff)
    then show "pow2 (bitlen d - 1) \<le> of_int d"
      using pd by (simp add: pow2_def)
    have "(of_int d :: rat) < of_int (2 ^ nat (bitlen d))"
      using bd(2) by (simp only: of_int_less_iff)
    then show "of_int d < pow2 (bitlen d)"
      using pd by (simp add: pow2_def)
  qed
  have dpos: "(0::rat) < of_int d" using d by simp
  have upper: "x < pow2 (k + 1)"
  proof -
    have "of_int n < pow2 (bitlen n)" by (rule r1)
    also have "pow2 (bitlen n) = pow2 (k + 1) * pow2 (bitlen d - 1)"
      by (simp add: k_def flip: pow2_add)
    also have "\<dots> \<le> pow2 (k + 1) * of_int d"
      using r1(3) pow2_pos [of "k + 1"] by (simp add: mult_left_mono)
    finally show ?thesis
      using dpos by (simp add: x pos_divide_less_eq)
  qed
  have lower: "pow2 (k - 1) \<le> x"
  proof -
    have "pow2 (k - 1) * of_int d \<le> pow2 (k - 1) * pow2 (bitlen d)"
      using r1(4) pow2_pos [of "k - 1"] by (simp add: mult_left_mono less_imp_le)
    also have "\<dots> = pow2 (bitlen n - 1)"
      by (simp add: k_def flip: pow2_add)
    also have "\<dots> \<le> of_int n" by (rule r1)
    finally show ?thesis
      using dpos by (simp add: x pos_le_divide_eq)
  qed
  have "ilog2 x = (if pow2 k \<le> x then k else k - 1)"
    by (simp add: ilog2_def nd k_def Let_def)
  then show ?thesis
    using upper lower by (auto simp: not_le)
qed

lemma ilog2_unique:
  assumes "0 < x" and lo: "pow2 e \<le> x" and hi: "x < pow2 (e + 1)"
  shows "ilog2 x = e"
proof (rule ccontr)
  assume ne: "ilog2 x \<noteq> e"
  from ilog2_bounds [OF assms(1)]
  have b: "pow2 (ilog2 x) \<le> x" "x < pow2 (ilog2 x + 1)" by simp_all
  show False
  proof (cases "ilog2 x < e")
    case True
    then have "pow2 (ilog2 x + 1) \<le> pow2 e" by (intro pow2_mono) simp
    with b(2) lo show False by simp
  next
    case False
    with ne have "e + 1 \<le> ilog2 x" by simp
    then have "pow2 (e + 1) \<le> pow2 (ilog2 x)" by (rule pow2_mono)
    with b(1) hi show False by simp
  qed
qed

lemma round_half_even_nearest:
  assumes "of_int m - 1 / 2 < z" and "z < of_int m + 1 / 2"
  shows "round_half_even z = m"
proof -
  have "\<lfloor>z\<rfloor> = m \<or> \<lfloor>z\<rfloor> = m - 1"
    using assms by linarith
  then show ?thesis
  proof
    assume f: "\<lfloor>z\<rfloor> = m"
    then have "z - of_int \<lfloor>z\<rfloor> < 1 / 2" using assms by simp
    then show ?thesis by (simp add: round_half_even_def Let_def f)
  next
    assume f: "\<lfloor>z\<rfloor> = m - 1"
    then have "1 / 2 < z - of_int \<lfloor>z\<rfloor>" using assms by simp
    then show ?thesis by (simp add: round_half_even_def Let_def f)
  qed
qed

lemma round_half_even_tie:
  assumes "z = of_int k + 1 / 2"
  shows "round_half_even z = (if even k then k else k + 1)"
proof -
  have "\<lfloor>z\<rfloor> = k"
    unfolding assms by linarith
  then show ?thesis
    by (simp add: round_half_even_def Let_def assms)
qed

text \<open>
  How a rounding is checked: with the exponent \<open>e\<close> of the exact value and the integer
  \<open>m\<close> nearest to it on the grid of step \<open>2 ^ q\<close>.
\<close>

lemma binary_of_abs:
  assumes "x \<noteq> 0" and "pow2 e \<le> \<bar>x\<bar>" and "\<bar>x\<bar> < pow2 (e + 1)"
    and "q = max (e - (int p - 1)) emin"
    and "of_int m - 1 / 2 < \<bar>x\<bar> / pow2 q" and "\<bar>x\<bar> / pow2 q < of_int m + 1 / 2"
    and "of_int m * pow2 q < pow2 emax"
    and "z = (if 0 < x then of_int m * pow2 q else - (of_int m * pow2 q))"
  shows "binary_of p emin emax x = Num z"
proof -
  have "0 < \<bar>x\<bar>" using assms(1) by simp
  then have "ilog2 \<bar>x\<bar> = e" using assms(2,3) by (rule ilog2_unique)
  moreover have "round_half_even (\<bar>x\<bar> / pow2 q) = m"
    using assms(5,6) by (rule round_half_even_nearest)
  ultimately have r: "round_half_even (\<bar>x\<bar> / pow2 q) = m"
    and q: "max (ilog2 \<bar>x\<bar> - (int p - 1)) emin = q"
    by (simp_all add: assms(4))
  have "binary_of p emin emax x =
      (if pow2 emax \<le> of_int m * pow2 q then (if 0 < x then PosInfinity else NegInfinity)
       else Num (if 0 < x then of_int m * pow2 q else - (of_int m * pow2 q)))"
    unfolding binary_of_def Let_def q r using assms(1) by simp
  then show ?thesis
    using assms(7) by (simp add: assms(8))
qed

lemma double_of_abs:
  assumes "x \<noteq> 0" and "pow2 e \<le> \<bar>x\<bar>" and "\<bar>x\<bar> < pow2 (e + 1)"
    and "q = max (e - 52) (- 1074)"
    and "of_int m - 1 / 2 < \<bar>x\<bar> / pow2 q" and "\<bar>x\<bar> / pow2 q < of_int m + 1 / 2"
    and "of_int m * pow2 q < pow2 1024"
    and "z = (if 0 < x then of_int m * pow2 q else - (of_int m * pow2 q))"
  shows "double_of x = Num z"
  unfolding double_of_def
  using assms by (intro binary_of_abs [where e = e and q = q and m = m]) simp_all

lemma binary_of_abs_tie:
  assumes "x \<noteq> 0" and "pow2 e \<le> \<bar>x\<bar>" and "\<bar>x\<bar> < pow2 (e + 1)"
    and "q = max (e - (int p - 1)) emin"
    and "\<bar>x\<bar> / pow2 q = of_int k + 1 / 2" and "m = (if even k then k else k + 1)"
    and "of_int m * pow2 q < pow2 emax"
    and "z = (if 0 < x then of_int m * pow2 q else - (of_int m * pow2 q))"
  shows "binary_of p emin emax x = Num z"
proof -
  have "0 < \<bar>x\<bar>" using assms(1) by simp
  then have "ilog2 \<bar>x\<bar> = e" using assms(2,3) by (rule ilog2_unique)
  moreover have "round_half_even (\<bar>x\<bar> / pow2 q) = m"
    using round_half_even_tie [OF assms(5)] assms(6) by simp
  ultimately have r: "round_half_even (\<bar>x\<bar> / pow2 q) = m"
    and q: "max (ilog2 \<bar>x\<bar> - (int p - 1)) emin = q"
    by (simp_all add: assms(4))
  have "binary_of p emin emax x =
      (if pow2 emax \<le> of_int m * pow2 q then (if 0 < x then PosInfinity else NegInfinity)
       else Num (if 0 < x then of_int m * pow2 q else - (of_int m * pow2 q)))"
    unfolding binary_of_def Let_def q r using assms(1) by simp
  then show ?thesis
    using assms(7) by (simp add: assms(8))
qed

lemma double_of_abs_tie:
  assumes "x \<noteq> 0" and "pow2 e \<le> \<bar>x\<bar>" and "\<bar>x\<bar> < pow2 (e + 1)"
    and "q = max (e - 52) (- 1074)"
    and "\<bar>x\<bar> / pow2 q = of_int k + 1 / 2" and "m = (if even k then k else k + 1)"
    and "of_int m * pow2 q < pow2 1024"
    and "z = (if 0 < x then of_int m * pow2 q else - (of_int m * pow2 q))"
  shows "double_of x = Num z"
  unfolding double_of_def
  using assms by (intro binary_of_abs_tie [where e = e and q = q and m = m and k = k]) simp_all

lemma double_of_zero [simp]: "double_of 0 = Num 0"
  by (simp add: double_of_def binary_of_def)

lemma js_add_zero [simp]: "js_add x (Num 0) = x" "js_add (Num 0) x = x"
  by (cases x; simp add: js_add.simps(1))+

lemma js_mul_Num: "double_of (a * b) = Num c \<Longrightarrow> js_mul (Num a) (Num b) = Num c"
  by (simp add: js_mul.simps(1))

lemma js_add_Num:
  "a \<noteq> 0 \<Longrightarrow> b \<noteq> 0 \<Longrightarrow> double_of (a + b) = Num c \<Longrightarrow> js_add (Num a) (Num b) = Num c"
  by (simp add: js_add.simps(1))

lemma js_sub_Num:
  "a \<noteq> 0 \<Longrightarrow> b \<noteq> 0 \<Longrightarrow> double_of (a - b) = Num c \<Longrightarrow> js_sub (Num a) (Num b) = Num c"
  by (simp add: js_sub_def js_add.simps(1))

lemma js_div_Num: "b \<noteq> 0 \<Longrightarrow> double_of (a / b) = Num c \<Longrightarrow> js_div (Num a) (Num b) = Num c"
  by (simp add: js_div.simps(1))

lemma Math_round_Num:
  "rat_of_int n \<le> a + 1 / 2 \<Longrightarrow> a + 1 / 2 < rat_of_int n + 1 \<Longrightarrow>
   Math_round (Num a) = Num (rat_of_int n)"
proof -
  assume "rat_of_int n \<le> a + 1 / 2" "a + 1 / 2 < rat_of_int n + 1"
  then have "\<lfloor>a + 1 / 2\<rfloor> = n" by linarith
  then show ?thesis by (simp add: Math_round.simps(1))
qed

lemma round2_Num:
  assumes "js_mul (Num a) (Num 100) = Num b"
    and "rat_of_int n \<le> b + 1 / 2" and "b + 1 / 2 < rat_of_int n + 1"
    and "js_div (Num (rat_of_int n)) (Num 100) = Num c"
  shows "round2 (Num a) = Num c"
proof -
  have "Math_round (Num b) = Num (rat_of_int n)"
    using assms(2,3) by (rule Math_round_Num)
  then show ?thesis
    using assms(1,4) by (simp only: round2_def)
qed

lemma round2_zero [simp]: "round2 (Num 0) = Num 0"
proof -
  have "Math_round (Num 0) = Num (rat_of_int 0)"
    by (rule Math_round_Num) simp_all
  then show ?thesis
    by (simp add: round2_def js_mul.simps(1) js_div.simps(1))
qed

lemma round2_NaN [simp]: "round2 NaN = NaN"
  by (simp add: round2_def)

lemma double_of_not_NaN [simp]: "double_of x \<noteq> NaN"
  by (simp add: double_of_def binary_of_def Let_def)

lemma round2_fold: "js_div (Math_round (js_mul x (Num 100))) (Num 100) = round2 x"
  by (simp add: round2_def)

lemma js_mul_zero [simp]: "js_mul (Num c) (Num 0) = Num 0" "js_mul (Num 0) (Num c) = Num 0"
  by (simp_all add: js_mul.simps(1))

lemma Math_round_zero [simp]: "Math_round (Num 0) = Num 0"
  using Math_round_Num [of 0 0] by simp

lemma js_div_zero [simp]: "b \<noteq> 0 \<Longrightarrow> js_div (Num 0) (Num b) = Num 0"
  by (simp add: js_div.simps(1))

subsection \<open>How far a rounded result lies from the exact one\<close>

lemma round_half_even_close: "\<bar>of_int (round_half_even z) - z\<bar> \<le> 1 / 2"
proof -
  have "of_int \<lfloor>z\<rfloor> \<le> z" "z < of_int \<lfloor>z\<rfloor> + 1"
    by linarith+
  then show ?thesis
    by (auto simp: round_half_even_def Let_def)
qed

lemma pow2_less_imp: "pow2 a \<le> x \<Longrightarrow> x \<le> pow2 b \<Longrightarrow> a \<le> b"
proof (rule ccontr)
  assume h: "pow2 a \<le> x" "x \<le> pow2 b" and "\<not> a \<le> b"
  then have "b + 1 \<le> a" by simp
  then have "pow2 (b + 1) \<le> pow2 a" by (rule pow2_mono)
  moreover have "pow2 (b + 1) = 2 * pow2 b"
    by (simp add: pow2_add pow2_numeral)
  ultimately show False
    using h pow2_pos [of b] by simp
qed

lemma double_of_error:
  assumes "\<bar>x\<bar> \<le> pow2 1000"
  shows "\<exists>y. double_of x = Num y \<and> \<bar>y - x\<bar> \<le> \<bar>x\<bar> / 2 ^ 53 + 1 / 2 ^ 1075"
proof (cases "x = 0")
  case True
  then show ?thesis by simp
next
  case False
  define a where "a = \<bar>x\<bar>"
  define e where "e = ilog2 a"
  define q where "q = max (e - 52) (- 1074)"
  define m where "m = round_half_even (a / pow2 q)"
  define y where "y = of_int m * pow2 q"
  have a: "0 < a" using False by (simp add: a_def)
  from ilog2_bounds [OF a] have lo: "pow2 e \<le> a" and hi: "a < pow2 (e + 1)"
    by (simp_all add: e_def)
  have e: "e \<le> 1000"
    using lo assms unfolding a_def [symmetric] by (rule pow2_less_imp)
  have "\<bar>of_int m - a / pow2 q\<bar> \<le> 1 / 2"
    unfolding m_def by (rule round_half_even_close)
  then have "\<bar>of_int m - a / pow2 q\<bar> * pow2 q \<le> 1 / 2 * pow2 q"
    using pow2_pos [of q] by (simp add: mult_right_mono less_imp_le)
  moreover have "\<bar>of_int m - a / pow2 q\<bar> * pow2 q = \<bar>y - a\<bar>"
  proof -
    have "\<bar>of_int m - a / pow2 q\<bar> * pow2 q = \<bar>(of_int m - a / pow2 q) * pow2 q\<bar>"
      using pow2_pos [of q] by (simp add: abs_mult)
    also have "(of_int m - a / pow2 q) * pow2 q = y - a"
      using pow2_pos [of q] by (simp add: y_def algebra_simps)
    finally show ?thesis .
  qed
  ultimately have close: "\<bar>y - a\<bar> \<le> pow2 q / 2"
    by simp
  have step: "pow2 q / 2 \<le> a / 2 ^ 53 + 1 / 2 ^ 1075"
  proof (cases "- 1074 \<le> e - 52")
    case True
    then have "q = e + (- 52)" by (simp add: q_def)
    then have "pow2 q = pow2 e * pow2 (- 52)" by (simp only: pow2_add)
    also have "\<dots> \<le> a * pow2 (- 52)"
      using lo pow2_pos [of "- 52"] by (simp add: mult_right_mono less_imp_le)
    finally have "pow2 q / 2 \<le> a / 2 ^ 53"
      by (simp add: pow2_numeral)
    then show ?thesis by simp
  next
    case False
    then have "q = - 1074" by (simp add: q_def)
    then have "pow2 q / 2 = 1 / 2 ^ 1075"
      by (simp add: pow2_numeral)
    then show ?thesis using a by simp
  qed
  have "q \<le> 948" using e by (simp add: q_def)
  then have "pow2 q \<le> pow2 948" by (rule pow2_mono)
  with close assms have "y \<le> pow2 1000 + pow2 948 / 2"
    unfolding a_def [symmetric] by linarith
  also have "\<dots> < pow2 1024"
    by (simp add: pow2_numeral)
  finally have small: "\<not> pow2 1024 \<le> y" by simp
  have "double_of x = Num (if 0 < x then y else - y)"
    using False small
    by (simp add: double_of_def binary_of_def Let_def y_def m_def q_def e_def a_def)
  moreover have "\<bar>(if 0 < x then y else - y) - x\<bar> = \<bar>y - a\<bar>"
    using False by (auto simp: a_def)
  ultimately show ?thesis
    using close step unfolding a_def by auto
qed


lemma double_of_near:
  assumes "\<bar>x\<bar> \<le> 2 ^ 40"
  shows "\<exists>y. double_of x = Num y \<and> \<bar>y - x\<bar> \<le> \<bar>x\<bar> / 2 ^ 53 + 1 / 2 ^ 64"
proof -
  have "(2::rat) ^ 40 \<le> pow2 1000"
    by (simp add: pow2_numeral)
  with assms have "\<bar>x\<bar> \<le> pow2 1000" by simp
  from double_of_error [OF this] obtain y
    where y: "double_of x = Num y" "\<bar>y - x\<bar> \<le> \<bar>x\<bar> / 2 ^ 53 + 1 / 2 ^ 1075"
    by blast
  have "(1::rat) / 2 ^ 1075 \<le> 1 / 2 ^ 64"
    by simp
  with y show ?thesis
    by (intro exI [of _ y]) simp
qed

lemma abs_boundD: "\<bar>u - v\<bar> \<le> d \<Longrightarrow> v - d \<le> u \<and> u \<le> v + (d::rat)"
  by linarith

lemma abs_boundI: "v - d \<le> u \<Longrightarrow> u \<le> v + d \<Longrightarrow> \<bar>u - v\<bar> \<le> (d::rat)"
  by linarith

lemma round2_error:
  assumes "\<bar>a\<bar> \<le> 2 ^ 32"
  shows "\<exists>c. round2 (Num a) = Num c \<and> \<bar>c - a\<bar> \<le> 1 / 200 + 1 / 2 ^ 19"
proof -
  define A where "A = \<bar>a\<bar>"
  have A: "- A \<le> a" "a \<le> A" "0 \<le> A" "A \<le> 4294967296"
    using assms by (simp_all add: A_def)
  have "\<bar>a * 100\<bar> \<le> 2 ^ 40"
    using assms by (simp add: abs_mult)
  from double_of_near [OF this] obtain b
    where b: "double_of (a * 100) = Num b"
      and "\<bar>b - a * 100\<bar> \<le> \<bar>a * 100\<bar> / 2 ^ 53 + 1 / 2 ^ 64"
    by blast
  then have "\<bar>b - a * 100\<bar> \<le> A * 100 / 9007199254740992 + 1 / 18446744073709551616"
    by (simp add: abs_mult A_def)
  from abs_boundD [OF this]
  have eb: "a * 100 - (A * 100 / 9007199254740992 + 1 / 18446744073709551616) \<le> b"
    "b \<le> a * 100 + (A * 100 / 9007199254740992 + 1 / 18446744073709551616)"
    by simp_all
  define n where "n = \<lfloor>b + 1 / 2\<rfloor>"
  have en: "b - 1 / 2 \<le> rat_of_int n" "rat_of_int n \<le> b + 1 / 2"
    unfolding n_def by linarith+
  define N where "N = \<bar>rat_of_int n / 100\<bar>"
  have N: "- N \<le> rat_of_int n / 100" "rat_of_int n / 100 \<le> N" "0 \<le> N"
    by (simp_all add: N_def)
  have Nb: "N \<le> A + A / 9007199254740992 + 1"
    unfolding N_def using en eb A by (intro abs_leI) linarith+
  then have "N \<le> 2 ^ 40"
    using A by simp
  then have "\<bar>rat_of_int n / 100\<bar> \<le> 2 ^ 40"
    by (simp only: N_def)
  from double_of_near [OF this] obtain c
    where c: "double_of (rat_of_int n / 100) = Num c"
      and "\<bar>c - rat_of_int n / 100\<bar> \<le> \<bar>rat_of_int n / 100\<bar> / 2 ^ 53 + 1 / 2 ^ 64"
    by blast
  then have "\<bar>c - rat_of_int n / 100\<bar> \<le> N / 9007199254740992 + 1 / 18446744073709551616"
    by (simp add: N_def)
  from abs_boundD [OF this]
  have ec: "rat_of_int n / 100 - (N / 9007199254740992 + 1 / 18446744073709551616) \<le> c"
    "c \<le> rat_of_int n / 100 + (N / 9007199254740992 + 1 / 18446744073709551616)"
    by simp_all
  have "round2 (Num a) = Num c"
    by (simp add: round2_def js_mul.simps(1) b Math_round.simps(1) n_def [symmetric]
        js_div.simps(1) c)
  moreover have "\<bar>c - a\<bar> \<le> 1 / 200 + 1 / 524288"
    using en eb ec A Nb by (intro abs_boundI) linarith+
  ultimately show ?thesis by simp
qed

lemma js_add_error:
  assumes "\<bar>a\<bar> \<le> 2 ^ 38" and "\<bar>b\<bar> \<le> 2 ^ 38"
  shows "\<exists>s. js_add (Num a) (Num b) = Num s
           \<and> \<bar>s - (a + b)\<bar> \<le> \<bar>a + b\<bar> / 2 ^ 53 + 1 / 2 ^ 64"
proof -
  have "\<bar>a + b\<bar> \<le> \<bar>a\<bar> + \<bar>b\<bar>"
    by (rule abs_triangle_ineq)
  also have "\<dots> \<le> 2 ^ 38 + 2 ^ 38"
    using assms by (rule add_mono)
  also have "\<dots> \<le> (2::rat) ^ 40"
    by simp
  finally have "\<bar>a + b\<bar> \<le> 2 ^ 40" .
  from double_of_near [OF this] obtain s
    where "double_of (a + b) = Num s" "\<bar>s - (a + b)\<bar> \<le> \<bar>a + b\<bar> / 2 ^ 53 + 1 / 2 ^ 64"
    by blast
  then show ?thesis
    by (cases "b = 0"; cases "a = 0") (simp_all add: js_add.simps(1))
qed

lemma js_add_near:
  assumes "\<bar>a\<bar> \<le> B" and "\<bar>b\<bar> \<le> B" and "B \<le> 2 ^ 37"
  shows "\<exists>s. js_add (Num a) (Num b) = Num s
           \<and> a + b - (B / 2 ^ 52 + 1 / 2 ^ 64) \<le> s \<and> s \<le> a + b + (B / 2 ^ 52 + 1 / 2 ^ 64)"
proof -
  have "\<bar>a\<bar> \<le> 2 ^ 38" "\<bar>b\<bar> \<le> 2 ^ 38"
    using assms by simp_all
  from js_add_error [OF this] obtain s
    where s: "js_add (Num a) (Num b) = Num s"
      "\<bar>s - (a + b)\<bar> \<le> \<bar>a + b\<bar> / 2 ^ 53 + 1 / 2 ^ 64"
    by blast
  have "\<bar>a + b\<bar> \<le> \<bar>a\<bar> + \<bar>b\<bar>"
    by (rule abs_triangle_ineq)
  also have "\<dots> \<le> B + B"
    using assms(1,2) by (rule add_mono)
  finally have "\<bar>a + b\<bar> / 2 ^ 53 \<le> B / 2 ^ 52"
    by simp
  with s(2) have "\<bar>s - (a + b)\<bar> \<le> B / 2 ^ 52 + 1 / 2 ^ 64"
    by simp
  from abs_boundD [OF this] s(1) show ?thesis
    by blast
qed

lemma total_close:
  assumes "\<bar>t\<bar> \<le> 10 ^ 9" and "\<bar>e\<bar> \<le> 10 ^ 9" and "\<bar>f\<bar> \<le> 10 ^ 9"
  shows "\<exists>rt re rf T. round2 (Num t) = Num rt \<and> round2 (Num e) = Num re
           \<and> round2 (Num f) = Num rf
           \<and> round2 (js_add (js_add (Num t) (Num e)) (Num f)) = Num T
           \<and> \<bar>T - (rt + re + rf)\<bar> \<le> 2 / 100 + 1 / 100000"
proof -
  have bt: "\<bar>t\<bar> \<le> 2 ^ 32" and be: "\<bar>e\<bar> \<le> 2 ^ 32" and bf: "\<bar>f\<bar> \<le> 2 ^ 32"
    using assms by simp_all
  have t: "- 1000000000 \<le> t" "t \<le> 1000000000" and e: "- 1000000000 \<le> e" "e \<le> 1000000000"
    and f: "- 1000000000 \<le> f" "f \<le> 1000000000"
    using assms by simp_all
  from round2_error [OF bt] obtain rt
    where rt: "round2 (Num t) = Num rt" and "\<bar>rt - t\<bar> \<le> 1 / 200 + 1 / 2 ^ 19" by blast
  from abs_boundD [OF this(2)]
  have ert: "t - (1 / 200 + 1 / 524288) \<le> rt" "rt \<le> t + (1 / 200 + 1 / 524288)"
    by simp_all
  from round2_error [OF be] obtain re
    where re: "round2 (Num e) = Num re" and "\<bar>re - e\<bar> \<le> 1 / 200 + 1 / 2 ^ 19" by blast
  from abs_boundD [OF this(2)]
  have ere: "e - (1 / 200 + 1 / 524288) \<le> re" "re \<le> e + (1 / 200 + 1 / 524288)"
    by simp_all
  from round2_error [OF bf] obtain rf
    where rf: "round2 (Num f) = Num rf" and "\<bar>rf - f\<bar> \<le> 1 / 200 + 1 / 2 ^ 19" by blast
  from abs_boundD [OF this(2)]
  have erf: "f - (1 / 200 + 1 / 524288) \<le> rf" "rf \<le> f + (1 / 200 + 1 / 524288)"
    by simp_all
  have "\<bar>t\<bar> \<le> 1000000000" "\<bar>e\<bar> \<le> 1000000000" "(1000000000::rat) \<le> 2 ^ 37"
    using assms by simp_all
  from js_add_near [OF this] obtain s1
    where s1: "js_add (Num t) (Num e) = Num s1"
      and "t + e - (1000000000 / 2 ^ 52 + 1 / 2 ^ 64) \<le> s1
           \<and> s1 \<le> t + e + (1000000000 / 2 ^ 52 + 1 / 2 ^ 64)"
    by blast
  then have es1: "t + e - (1000000000 / 4503599627370496 + 1 / 18446744073709551616) \<le> s1"
    "s1 \<le> t + e + (1000000000 / 4503599627370496 + 1 / 18446744073709551616)"
    by simp_all
  have "\<bar>s1\<bar> \<le> 2000000001" "\<bar>f\<bar> \<le> 2000000001" "(2000000001::rat) \<le> 2 ^ 37"
    using es1 t e f by (simp_all add: abs_le_iff)
  from js_add_near [OF this] obtain s2
    where s2: "js_add (Num s1) (Num f) = Num s2"
      and "s1 + f - (2000000001 / 2 ^ 52 + 1 / 2 ^ 64) \<le> s2
           \<and> s2 \<le> s1 + f + (2000000001 / 2 ^ 52 + 1 / 2 ^ 64)"
    by blast
  then have es2: "s1 + f - (2000000001 / 4503599627370496 + 1 / 18446744073709551616) \<le> s2"
    "s2 \<le> s1 + f + (2000000001 / 4503599627370496 + 1 / 18446744073709551616)"
    by simp_all
  have "\<bar>s2\<bar> \<le> 2 ^ 32"
    using es1 es2 t e f by (simp add: abs_le_iff)
  from round2_error [OF this] obtain T
    where T: "round2 (Num s2) = Num T" and "\<bar>T - s2\<bar> \<le> 1 / 200 + 1 / 2 ^ 19" by blast
  from abs_boundD [OF this(2)]
  have eT: "s2 - (1 / 200 + 1 / 524288) \<le> T" "T \<le> s2 + (1 / 200 + 1 / 524288)"
    by simp_all
  have "\<bar>T - (rt + re + rf)\<bar> \<le> 2 / 100 + 1 / 100000"
    using ert ere erf es1 es2 eT by (intro abs_boundI) linarith+
  with rt re rf T show ?thesis
    by (simp add: s1 s2)
qed

section \<open>Properties of the calculators\<close>

subsection \<open>The decimal literals as doubles\<close>

lemma lit_039: "double_of (39 / 100) = Num (3512807709348987 / 9007199254740992)"
  by (rule double_of_abs [where e = "- 2" and q = "- 54" and m = 7025615418697974]) (simp_all add: pow2_numeral)

lemma lit_013: "double_of (13 / 100) = Num (1170935903116329 / 9007199254740992)"
  by (rule double_of_abs [where e = "- 3" and q = "- 55" and m = 4683743612465316]) (simp_all add: pow2_numeral)

lemma lit_007: "double_of (7 / 100) = Num (1261007895663739 / 18014398509481984)"
  by (rule double_of_abs [where e = "- 4" and q = "- 56" and m = 5044031582654956]) (simp_all add: pow2_numeral)

lemma lit_0045: "double_of (45 / 1000) = Num (3242591731706757 / 72057594037927936)"
  by (rule double_of_abs [where e = "- 5" and q = "- 57" and m = 6485183463413514]) (simp_all add: pow2_numeral)

lemma lit_037: "double_of (37 / 100) = Num (3332663724254167 / 9007199254740992)"
  by (rule double_of_abs [where e = "- 2" and q = "- 54" and m = 6665327448508334]) (simp_all add: pow2_numeral)

lemma lit_53: "double_of (53 / 10) = Num (5967269506265907 / 1125899906842624)"
  by (rule double_of_abs [where e = "2" and q = "- 50" and m = 5967269506265907]) (simp_all add: pow2_numeral)

lemma lit_304: "double_of (304 / 10) = Num (4278419646001971 / 140737488355328)"
  by (rule double_of_abs [where e = "4" and q = "- 48" and m = 8556839292003942]) (simp_all add: pow2_numeral)

lemma lit_42: "double_of (42 / 10) = Num (4728779608739021 / 1125899906842624)"
  by (rule double_of_abs [where e = "2" and q = "- 50" and m = 4728779608739021]) (simp_all add: pow2_numeral)

lemma lit_02: "double_of (2 / 10) = Num (3602879701896397 / 18014398509481984)"
  by (rule double_of_abs [where e = "- 3" and q = "- 55" and m = 7205759403792794]) (simp_all add: pow2_numeral)

lemma lit_015: "double_of (15 / 100) = Num (5404319552844595 / 36028797018963968)"
  by (rule double_of_abs [where e = "- 3" and q = "- 55" and m = 5404319552844595]) (simp_all add: pow2_numeral)

lemma lit_101: "double_of (101 / 100) = Num (4548635623644201 / 4503599627370496)"
  by (rule double_of_abs [where e = "0" and q = "- 52" and m = 4548635623644201]) (simp_all add: pow2_numeral)

lemma lit_077: "double_of (77 / 100) = Num (1733885856537641 / 2251799813685248)"
  by (rule double_of_abs [where e = "- 1" and q = "- 53" and m = 6935543426150564]) (simp_all add: pow2_numeral)

lemma lit_076: "double_of (76 / 100) = Num (3422735716801577 / 4503599627370496)"
  by (rule double_of_abs [where e = "- 1" and q = "- 53" and m = 6845471433603154]) (simp_all add: pow2_numeral)

lemma lit_022: "double_of (22 / 100) = Num (7926335344172073 / 36028797018963968)"
  by (rule double_of_abs [where e = "- 3" and q = "- 55" and m = 7926335344172073]) (simp_all add: pow2_numeral)

lemma lit_023: "double_of (23 / 100) = Num (8286623314361713 / 36028797018963968)"
  by (rule double_of_abs [where e = "- 3" and q = "- 55" and m = 8286623314361713]) (simp_all add: pow2_numeral)

lemma lit_084: "double_of (84 / 100) = Num (7566047373982433 / 9007199254740992)"
  by (rule double_of_abs [where e = "- 1" and q = "- 53" and m = 7566047373982433]) (simp_all add: pow2_numeral)

lemma lit_1758: "double_of (1758 / 100) = Num (1237082522643333 / 70368744177664)"
  by (rule double_of_abs [where e = "4" and q = "- 48" and m = 4948330090573332]) (simp_all add: pow2_numeral)

lemma lit_059: "double_of (59 / 100) = Num (5314247560297185 / 9007199254740992)"
  by (rule double_of_abs [where e = "- 1" and q = "- 53" and m = 5314247560297185]) (simp_all add: pow2_numeral)

lemma lit_130: "double_of (130 / 100) = Num (5854679515581645 / 4503599627370496)"
  by (rule double_of_abs [where e = "0" and q = "- 52" and m = 5854679515581645]) (simp_all add: pow2_numeral)

lemma lit_008: "double_of (8 / 100) = Num (5764607523034235 / 72057594037927936)"
  by (rule double_of_abs [where e = "- 4" and q = "- 56" and m = 5764607523034235]) (simp_all add: pow2_numeral)

lemma lit_195: "double_of (195 / 100) = Num (8782019273372467 / 4503599627370496)"
  by (rule double_of_abs [where e = "0" and q = "- 52" and m = 8782019273372467]) (simp_all add: pow2_numeral)

lemma table_values:
  "EMISSION_FACTORS_transport =
     [(''car_gasoline'', Num (3512807709348987 / 9007199254740992)),
      (''car_electric'', Num (1170935903116329 / 9007199254740992)),
      (''bus'', Num (1261007895663739 / 18014398509481984)),
      (''train'', Num (3242591731706757 / 72057594037927936)),
      (''bike'', Num 0),
      (''walking'', Num 0)]"
  unfolding EMISSION_FACTORS_transport_def lit_039 lit_013 lit_007 lit_0045 by (rule refl)

lemma factor_values:
  "EMISSION_FACTORS_energy_electricity = Num (3332663724254167 / 9007199254740992)"
  "EMISSION_FACTORS_energy_naturalGas = Num (5967269506265907 / 1125899906842624)"
  "EMISSION_FACTORS_food_beef = Num (4278419646001971 / 140737488355328)"
  "EMISSION_FACTORS_food_chicken = Num (4728779608739021 / 1125899906842624)"
  unfolding EMISSION_FACTORS_energy_electricity_def EMISSION_FACTORS_energy_naturalGas_def
    EMISSION_FACTORS_food_beef_def EMISSION_FACTORS_food_chicken_def
    lit_037 lit_53 lit_304 lit_42
  by (rule refl)+

lemma food_const_beef: "js_mul (Num (4278419646001971 / 140737488355328)) (Num (1 / 2)) = Num (4278419646001971 / 281474976710656)"
  by (rule js_mul_Num, rule double_of_abs [where e = "3" and q = "- 49" and m = 8556839292003942]) (simp_all add: pow2_numeral)

lemma food_const_chicken: "js_mul (Num (4728779608739021 / 1125899906842624)) (Num (3602879701896397 / 18014398509481984)) = Num (3783023686991217 / 4503599627370496)"
  by (rule js_mul_Num, rule double_of_abs [where e = "- 1" and q = "- 53" and m = 7566047373982434]) (simp_all add: pow2_numeral)

lemma food_const_vegetables: "js_mul (Num 1) (Num (5404319552844595 / 36028797018963968)) = Num (5404319552844595 / 36028797018963968)"
  by (rule js_mul_Num, rule double_of_abs [where e = "- 3" and q = "- 55" and m = 5404319552844595]) (simp_all add: pow2_numeral)

lemma food_consts:
  "js_mul EMISSION_FACTORS_food_beef (Num (1 / 2)) = Num (4278419646001971 / 281474976710656)"
  "js_mul EMISSION_FACTORS_food_chicken (double_of (2 / 10)) = Num (3783023686991217 / 4503599627370496)"
  "js_mul EMISSION_FACTORS_food_vegetables (double_of (15 / 100)) = Num (5404319552844595 / 36028797018963968)"
  unfolding factor_values EMISSION_FACTORS_food_vegetables_def lit_02 lit_015
  by (rule food_const_beef food_const_chicken food_const_vegetables)+

lemma food_literals:
  "js_mul (double_of (304 / 10)) (Num (1 / 2)) = Num (4278419646001971 / 281474976710656)"
  "js_mul (double_of (42 / 10)) (double_of (2 / 10)) = Num (3783023686991217 / 4503599627370496)"
  "js_mul (Num 1) (double_of (15 / 100)) = Num (5404319552844595 / 36028797018963968)"
  unfolding lit_304 lit_42 lit_02 lit_015
  by (rule food_const_beef food_const_chicken food_const_vegetables)+

lemma short_trip_value:
  "short_trip = no_activity\<lparr> transportType := Some ''car_gasoline'',
     transportDistance := Some (Num (4548635623644201 / 4503599627370496)),
     electricityUsage := Some (Num (4548635623644201 / 4503599627370496)) \<rparr>"
  unfolding short_trip_def lit_101 by (rule refl)

subsection \<open>Closed forms of the sections\<close>

lemma step_amount:
  "(case v of None \<Rightarrow> acc
    | Some n \<Rightarrow> if truthy n then js_add acc (js_mul (Num c) n) else acc)
   = js_add acc (js_mul (Num c) (amount v))"
  by (simp add: amount_def js_mul.simps(1) split: option.split)

lemma energy_section_closed:
  "energy_section d =
     js_add (js_mul EMISSION_FACTORS_energy_electricity (amount (electricityUsage d)))
            (js_mul EMISSION_FACTORS_energy_naturalGas (amount (naturalGasUsage d)))"
  unfolding energy_section_def Let_def factor_values step_amount by simp

lemma food_section_closed:
  "food_section d =
     js_add
       (js_add
          (js_mul (js_mul EMISSION_FACTORS_food_beef (Num (1 / 2))) (amount (beefServings d)))
          (js_mul (js_mul EMISSION_FACTORS_food_chicken (double_of (2 / 10)))
             (amount (chickenServings d))))
       (js_mul (js_mul EMISSION_FACTORS_food_vegetables (double_of (15 / 100)))
          (amount (vegetableServings d)))"
  unfolding food_section_def Let_def food_consts step_amount by simp

lemma food_section_value:
  "food_section d =
     js_add
       (js_add (js_mul (Num (4278419646001971 / 281474976710656)) (amount (beefServings d)))
               (js_mul (Num (3783023686991217 / 4503599627370496)) (amount (chickenServings d))))
       (js_mul (Num (5404319552844595 / 36028797018963968)) (amount (vegetableServings d)))"
  unfolding food_section_closed food_consts by (rule refl)

lemma transport_factor_known:
  "map_of EMISSION_FACTORS_transport ty = Some f \<Longrightarrow> transport_factor ty = Number f"
  by (simp add: transport_factor_def)

lemma known_nonempty: "map_of EMISSION_FACTORS_transport ty = Some f \<Longrightarrow> ty \<noteq> []"
  by (auto simp: EMISSION_FACTORS_transport_def split: if_splits)

lemma table_factor_Num:
  assumes "map_of EMISSION_FACTORS_transport ty = Some f"
  obtains a where "f = Num a"
proof -
  from assms have "(ty, f) \<in> set EMISSION_FACTORS_transport"
    by (rule map_of_SomeD)
  then have "f \<in> snd ` set EMISSION_FACTORS_transport"
    by force
  then have "f \<in> set (map snd EMISSION_FACTORS_transport)"
    by simp
  then have "\<exists>a. f = Num a"
    unfolding table_values by auto
  then show ?thesis
    using that by blast
qed

lemma transport_client_known:
  "transportType d = Some ty \<Longrightarrow> map_of EMISSION_FACTORS_transport ty = Some f \<Longrightarrow>
   transportDistance d = Some x \<Longrightarrow>
   transport_section_client d = (if truthy x then js_mul f x else Num 0)"
  by (simp add: transport_section_client_def transport_factor_known known_nonempty)

lemma transport_server_known:
  "transportType d = Some ty \<Longrightarrow> map_of EMISSION_FACTORS_transport ty = Some f \<Longrightarrow>
   transportDistance d = Some x \<Longrightarrow>
   transport_section_server d = (if truthy x then js_mul f x else Num 0)"
  by (simp add: transport_section_server_def transport_factor_known known_nonempty)

lemma guarded_product:
  assumes "map_of EMISSION_FACTORS_transport ty = Some f"
  shows "(if truthy x then js_mul f x else Num 0) = (if x = NaN then Num 0 else js_mul f x)"
proof -
  from assms obtain a where "f = Num a"
    by (rule table_factor_Num)
  then show ?thesis
    by (cases x) (simp_all add: js_mul.simps(1))
qed

lemma transport_sections_agree:
  assumes "transportType d = None
    \<or> (\<exists>ty f. transportType d = Some ty \<and> map_of EMISSION_FACTORS_transport ty = Some f)"
  shows "transport_section_client d = transport_section_server d"
  using assms
  by (auto simp: transport_section_client_def transport_section_server_def
      transport_factor_known split: option.split)

lemma results_fields:
  "transportEmissions (calculateEmissions d) = round2 (transport_section_client d)"
  "transportEmissions (calculateEmissions_server d) = round2 (transport_section_server d)"
  "energyEmissions (calculateEmissions d) = round2 (energy_section d)"
  "energyEmissions (calculateEmissions_server d) = round2 (energy_section d)"
  "foodEmissions (calculateEmissions d) = round2 (food_section d)"
  "foodEmissions (calculateEmissions_server d) = round2 (food_section d)"
  "totalEmissions (calculateEmissions d) =
     round2 (js_add (js_add (transport_section_client d) (energy_section d)) (food_section d))"
  "totalEmissions (calculateEmissions_server d) =
     round2 (js_add (js_add (transport_section_server d) (energy_section d)) (food_section d))"
  by (simp_all add: calculateEmissions_def calculateEmissions_server_def Let_def)

lemma recognized_keys:
  "map fst EMISSION_FACTORS_transport =
     [''car_gasoline'', ''car_electric'', ''bus'', ''train'', ''bike'', ''walking'']"
  by (simp add: EMISSION_FACTORS_transport_def)

lemma recognized_has_factor:
  assumes "ty \<in> set [''car_gasoline'', ''car_electric'', ''bus'', ''train'', ''bike'', ''walking'']"
  shows "\<exists>f. map_of EMISSION_FACTORS_transport ty = Some f"
proof -
  from assms have "ty \<in> fst ` set EMISSION_FACTORS_transport"
    unfolding recognized_keys [symmetric] by simp
  then have "map_of EMISSION_FACTORS_transport ty \<noteq> None"
    by (simp only: map_of_eq_None_iff not_not)
  then show ?thesis by blast
qed

lemma sections_no_activity:
  "energy_section (no_activity\<lparr> transportType := ty, transportDistance := x \<rparr>) = Num 0"
  "food_section (no_activity\<lparr> transportType := ty, transportDistance := x \<rparr>) = Num 0"
  by (simp_all add: energy_section_def food_section_def no_activity_def)

subsection \<open>The total and the three parts\<close>

text \<open>
  C1, as stated: the returned \<open>totalEmissions\<close> would be \<open>round2\<close> of the sum of the
  three returned fields. It is not. Driving 1.01 miles in a gasoline car and using 1.01
  kWh gives 0.39 and 0.37 for the parts, whose sum rounds to 0.76, and 0.77 for the
  total: the total is rounded from the sum of the amounts before they were rounded,
  0.3939 and 0.3737. Both calculators do the same.
\<close>

theorem total_not_round2_of_rounded_fields:
  "transportEmissions (calculateEmissions short_trip) = double_of (39 / 100)
   \<and> energyEmissions (calculateEmissions short_trip) = double_of (37 / 100)
   \<and> foodEmissions (calculateEmissions short_trip) = Num 0
   \<and> totalEmissions (calculateEmissions short_trip) = double_of (77 / 100)
   \<and> round2 (js_add (js_add (transportEmissions (calculateEmissions short_trip))
                             (energyEmissions (calculateEmissions short_trip)))
                     (foodEmissions (calculateEmissions short_trip)))
       = double_of (76 / 100)
   \<and> totalEmissions (calculateEmissions short_trip)
       \<noteq> round2 (js_add (js_add (transportEmissions (calculateEmissions short_trip))
                                (energyEmissions (calculateEmissions short_trip)))
                        (foodEmissions (calculateEmissions short_trip)))
   \<and> totalEmissions (calculateEmissions_server short_trip) = double_of (77 / 100)
   \<and> totalEmissions (calculateEmissions_server short_trip)
       \<noteq> round2 (js_add (js_add (transportEmissions (calculateEmissions_server short_trip))
                                (energyEmissions (calculateEmissions_server short_trip)))
                        (foodEmissions (calculateEmissions_server short_trip)))"
proof -
  have t: "js_mul (Num (3512807709348987 / 9007199254740992)) (Num (4548635623644201 / 4503599627370496)) = Num (3547935786442477 / 9007199254740992)"
    by (rule js_mul_Num, rule double_of_abs [where e = "- 2" and q = "- 54" and m = 7095871572884954]) (simp_all add: pow2_numeral)
  have e: "js_mul (Num (3332663724254167 / 9007199254740992)) (Num (4548635623644201 / 4503599627370496)) = Num (6731980722993417 / 18014398509481984)"
    by (rule js_mul_Num, rule double_of_abs [where e = "- 2" and q = "- 54" and m = 6731980722993417]) (simp_all add: pow2_numeral)
  have s: "js_add (Num (3547935786442477 / 9007199254740992)) (Num (6731980722993417 / 18014398509481984)) = Num (3456963073969593 / 4503599627370496)"
    by (rule js_add_Num, simp, simp, rule double_of_abs_tie [where e = "- 1" and q = "- 53" and m = 6913926147939186 and k = 6913926147939185]) (simp_all add: pow2_numeral)
  have rt: "round2 (Num (3547935786442477 / 9007199254740992)) = Num (3512807709348987 / 9007199254740992)"
  proof (rule round2_Num [where b = "2771824833158185 / 70368744177664" and n = "39"])
    show "js_mul (Num (3547935786442477 / 9007199254740992)) (Num 100) = Num (2771824833158185 / 70368744177664)"
      by (rule js_mul_Num, rule double_of_abs [where e = "5" and q = "- 47" and m = 5543649666316370]) (simp_all add: pow2_numeral)
    show "js_div (Num (rat_of_int 39)) (Num 100) = Num (3512807709348987 / 9007199254740992)"
      by (rule js_div_Num, simp, rule double_of_abs [where e = "- 2" and q = "- 54" and m = 7025615418697974]) (simp_all add: pow2_numeral)
  qed simp_all
  have re: "round2 (Num (6731980722993417 / 18014398509481984)) = Num (3332663724254167 / 9007199254740992)"
  proof (rule round2_Num [where b = "5259359939838607 / 140737488355328" and n = "37"])
    show "js_mul (Num (6731980722993417 / 18014398509481984)) (Num 100) = Num (5259359939838607 / 140737488355328)"
      by (rule js_mul_Num, rule double_of_abs [where e = "5" and q = "- 47" and m = 5259359939838607]) (simp_all add: pow2_numeral)
    show "js_div (Num (rat_of_int 37)) (Num 100) = Num (3332663724254167 / 9007199254740992)"
      by (rule js_div_Num, simp, rule double_of_abs [where e = "- 2" and q = "- 54" and m = 6665327448508334]) (simp_all add: pow2_numeral)
  qed simp_all
  have rs: "round2 (Num (3456963073969593 / 4503599627370496)) = Num (1733885856537641 / 2251799813685248)"
  proof (rule round2_Num [where b = "5401504803077489 / 70368744177664" and n = "77"])
    show "js_mul (Num (3456963073969593 / 4503599627370496)) (Num 100) = Num (5401504803077489 / 70368744177664)"
      by (rule js_mul_Num, rule double_of_abs [where e = "6" and q = "- 46" and m = 5401504803077489]) (simp_all add: pow2_numeral)
    show "js_div (Num (rat_of_int 77)) (Num 100) = Num (1733885856537641 / 2251799813685248)"
      by (rule js_div_Num, simp, rule double_of_abs [where e = "- 1" and q = "- 53" and m = 6935543426150564]) (simp_all add: pow2_numeral)
  qed simp_all
  have sr: "js_add (Num (3512807709348987 / 9007199254740992)) (Num (3332663724254167 / 9007199254740992)) = Num (3422735716801577 / 4503599627370496)"
    by (rule js_add_Num, simp, simp, rule double_of_abs [where e = "- 1" and q = "- 53" and m = 6845471433603154]) (simp_all add: pow2_numeral)
  have rsr: "round2 (Num (3422735716801577 / 4503599627370496)) = Num (3422735716801577 / 4503599627370496)"
  proof (rule round2_Num [where b = "76" and n = "76"])
    show "js_mul (Num (3422735716801577 / 4503599627370496)) (Num 100) = Num 76"
      by (rule js_mul_Num, rule double_of_abs [where e = "6" and q = "- 46" and m = 5348024557502464]) (simp_all add: pow2_numeral)
    show "js_div (Num (rat_of_int 76)) (Num 100) = Num (3422735716801577 / 4503599627370496)"
      by (rule js_div_Num, simp, rule double_of_abs [where e = "- 1" and q = "- 53" and m = 6845471433603154]) (simp_all add: pow2_numeral)
  qed simp_all
  have ts: "transport_section_client short_trip = Num (3547935786442477 / 9007199254740992)"
    "transport_section_server short_trip = Num (3547935786442477 / 9007199254740992)"
    by (simp_all add: short_trip_value no_activity_def transport_section_client_def
        transport_section_server_def transport_factor_def table_values t)
  have es: "energy_section short_trip = Num (6731980722993417 / 18014398509481984)"
    by (simp add: short_trip_value no_activity_def energy_section_def factor_values e)
  have fs: "food_section short_trip = Num 0"
    by (simp add: short_trip_value no_activity_def food_section_def)
  show ?thesis
    unfolding lit_039 lit_037 lit_077 lit_076
    by (simp add: results_fields ts es fs s rt re rs sr rsr)
qed

text \<open>
  C1, amended: in both calculators the total is \<open>Math.round(x * 100) / 100\<close> of the sum
  \<open>x\<close> of the three amounts before they are rounded. Whenever the three amounts are
  finite and at most \<open>10 ^ 9\<close> in magnitude, the four returned values are finite and
  the total differs from the sum of the three returned fields by at most 0.02001: two
  cents and the rounding error of the double operations. A difference of two cents
  occurs: 1.5 miles by gasoline car, 3.5 kWh and half a serving of vegetables give 0.59,
  1.3 and 0.08, which add up to 1.97, and a total of 1.95.
\<close>

theorem total_close_to_sum_of_fields:
  assumes "(r = calculateEmissions d \<and> transport_section_client d = Num t)
           \<or> (r = calculateEmissions_server d \<and> transport_section_server d = Num t)"
    and "energy_section d = Num e" and "food_section d = Num f"
    and "\<bar>t\<bar> \<le> 10 ^ 9" and "\<bar>e\<bar> \<le> 10 ^ 9" and "\<bar>f\<bar> \<le> 10 ^ 9"
  shows "totalEmissions r
           = js_div (Math_round (js_mul (js_add (js_add (Num t) (Num e)) (Num f)) (Num 100)))
               (Num 100)
       \<and> (\<exists>rt re rf T.
             transportEmissions r = Num rt \<and> energyEmissions r = Num re
             \<and> foodEmissions r = Num rf \<and> totalEmissions r = Num T
             \<and> \<bar>T - (rt + re + rf)\<bar> \<le> 2 / 100 + 1 / 100000)"
proof -
  have fields: "transportEmissions r = round2 (Num t)" "energyEmissions r = round2 (Num e)"
    "foodEmissions r = round2 (Num f)"
    "totalEmissions r = round2 (js_add (js_add (Num t) (Num e)) (Num f))"
    using assms(1-3) by (auto simp: results_fields)
  from total_close [OF assms(4-6)] show ?thesis
    unfolding fields round2_fold by blast
qed

theorem total_close_to_sum_of_fields_witness:
  "transportEmissions (calculateEmissions light_day) = double_of (59 / 100)
   \<and> energyEmissions (calculateEmissions light_day) = double_of (130 / 100)
   \<and> foodEmissions (calculateEmissions light_day) = double_of (8 / 100)
   \<and> totalEmissions (calculateEmissions light_day) = double_of (195 / 100)
   \<and> (\<exists>rt re rf T.
         transportEmissions (calculateEmissions light_day) = Num rt
         \<and> energyEmissions (calculateEmissions light_day) = Num re
         \<and> foodEmissions (calculateEmissions light_day) = Num rf
         \<and> totalEmissions (calculateEmissions light_day) = Num T
         \<and> \<bar>T - (rt + re + rf)\<bar> \<le> 2 / 100 + 1 / 100000
         \<and> 2 / 100 - 1 / 100000 \<le> \<bar>T - (rt + re + rf)\<bar>)"
proof -
  have t: "js_mul (Num (3512807709348987 / 9007199254740992)) (Num (3 / 2)) = Num (658651445502935 / 1125899906842624)"
    by (rule js_mul_Num, rule double_of_abs_tie [where e = "- 1" and q = "- 53" and m = 5269211564023480 and k = 5269211564023480]) (simp_all add: pow2_numeral)
  have e: "js_mul (Num (3332663724254167 / 9007199254740992)) (Num (7 / 2)) = Num (729020189680599 / 562949953421312)"
    by (rule js_mul_Num, rule double_of_abs [where e = "0" and q = "- 52" and m = 5832161517444792]) (simp_all add: pow2_numeral)
  have f: "js_mul (Num (5404319552844595 / 36028797018963968)) (Num (1 / 2)) = Num (5404319552844595 / 72057594037927936)"
    by (rule js_mul_Num, rule double_of_abs [where e = "- 4" and q = "- 56" and m = 5404319552844595]) (simp_all add: pow2_numeral)
  have s1: "js_add (Num (658651445502935 / 1125899906842624)) (Num (729020189680599 / 562949953421312)) = Num (2116691824864133 / 1125899906842624)"
    by (rule js_add_Num, simp, simp, rule double_of_abs [where e = "0" and q = "- 52" and m = 8466767299456532]) (simp_all add: pow2_numeral)
  have s2: "js_add (Num (2116691824864133 / 1125899906842624)) (Num (5404319552844595 / 72057594037927936)) = Num (8804537271509319 / 4503599627370496)"
    by (rule js_add_Num, simp, simp, rule double_of_abs [where e = "0" and q = "- 52" and m = 8804537271509319]) (simp_all add: pow2_numeral)
  have rt: "round2 (Num (658651445502935 / 1125899906842624)) = Num (5314247560297185 / 9007199254740992)"
  proof (rule round2_Num [where b = "117 / 2" and n = "59"])
    show "js_mul (Num (658651445502935 / 1125899906842624)) (Num 100) = Num (117 / 2)"
      by (rule js_mul_Num, rule double_of_abs_tie [where e = "5" and q = "- 47" and m = 8233143068786688 and k = 8233143068786687]) (simp_all add: pow2_numeral)
    show "js_div (Num (rat_of_int 59)) (Num 100) = Num (5314247560297185 / 9007199254740992)"
      by (rule js_div_Num, simp, rule double_of_abs [where e = "- 1" and q = "- 53" and m = 5314247560297185]) (simp_all add: pow2_numeral)
  qed simp_all
  have re: "round2 (Num (729020189680599 / 562949953421312)) = Num (5854679515581645 / 4503599627370496)"
  proof (rule round2_Num [where b = "259 / 2" and n = "130"])
    show "js_mul (Num (729020189680599 / 562949953421312)) (Num 100) = Num (259 / 2)"
      by (rule js_mul_Num, rule double_of_abs [where e = "7" and q = "- 45" and m = 4556376185503744]) (simp_all add: pow2_numeral)
    show "js_div (Num (rat_of_int 130)) (Num 100) = Num (5854679515581645 / 4503599627370496)"
      by (rule js_div_Num, simp, rule double_of_abs [where e = "0" and q = "- 52" and m = 5854679515581645]) (simp_all add: pow2_numeral)
  qed simp_all
  have rf: "round2 (Num (5404319552844595 / 72057594037927936)) = Num (5764607523034235 / 72057594037927936)"
  proof (rule round2_Num [where b = "15 / 2" and n = "8"])
    show "js_mul (Num (5404319552844595 / 72057594037927936)) (Num 100) = Num (15 / 2)"
      by (rule js_mul_Num, rule double_of_abs [where e = "2" and q = "- 50" and m = 8444249301319680]) (simp_all add: pow2_numeral)
    show "js_div (Num (rat_of_int 8)) (Num 100) = Num (5764607523034235 / 72057594037927936)"
      by (rule js_div_Num, simp, rule double_of_abs [where e = "- 4" and q = "- 56" and m = 5764607523034235]) (simp_all add: pow2_numeral)
  qed simp_all
  have rs: "round2 (Num (8804537271509319 / 4503599627370496)) = Num (8782019273372467 / 4503599627370496)"
  proof (rule round2_Num [where b = "6878544743366655 / 35184372088832" and n = "195"])
    show "js_mul (Num (8804537271509319 / 4503599627370496)) (Num 100) = Num (6878544743366655 / 35184372088832)"
      by (rule js_mul_Num, rule double_of_abs [where e = "7" and q = "- 45" and m = 6878544743366655]) (simp_all add: pow2_numeral)
    show "js_div (Num (rat_of_int 195)) (Num 100) = Num (8782019273372467 / 4503599627370496)"
      by (rule js_div_Num, simp, rule double_of_abs [where e = "0" and q = "- 52" and m = 8782019273372467]) (simp_all add: pow2_numeral)
  qed simp_all
  have ts: "transport_section_client light_day = Num (658651445502935 / 1125899906842624)"
    by (simp add: light_day_def no_activity_def transport_section_client_def
        transport_factor_def table_values t)
  have es: "energy_section light_day = Num (729020189680599 / 562949953421312)"
    by (simp add: light_day_def no_activity_def energy_section_def factor_values e)
  have fs: "food_section light_day = Num (5404319552844595 / 72057594037927936)"
    by (simp add: light_day_def no_activity_def food_section_value amount_def f)
  have vals: "transportEmissions (calculateEmissions light_day) = Num (5314247560297185 / 9007199254740992)"
    "energyEmissions (calculateEmissions light_day) = Num (5854679515581645 / 4503599627370496)"
    "foodEmissions (calculateEmissions light_day) = Num (5764607523034235 / 72057594037927936)"
    "totalEmissions (calculateEmissions light_day) = Num (8782019273372467 / 4503599627370496)"
    by (simp_all add: results_fields ts es fs s1 s2 rt re rf rs)
  have "(calculateEmissions light_day = calculateEmissions light_day
           \<and> transport_section_client light_day = Num (658651445502935 / 1125899906842624))
        \<or> (calculateEmissions light_day = calculateEmissions_server light_day
           \<and> transport_section_server light_day = Num (658651445502935 / 1125899906842624))"
    using ts by simp
  moreover have "\<bar>658651445502935 / 1125899906842624\<bar> \<le> (10::rat) ^ 9" "\<bar>729020189680599 / 562949953421312\<bar> \<le> (10::rat) ^ 9"
    "\<bar>5404319552844595 / 72057594037927936\<bar> \<le> (10::rat) ^ 9"
    by simp_all
  ultimately have "\<exists>rt re rf T.
         transportEmissions (calculateEmissions light_day) = Num rt
         \<and> energyEmissions (calculateEmissions light_day) = Num re
         \<and> foodEmissions (calculateEmissions light_day) = Num rf
         \<and> totalEmissions (calculateEmissions light_day) = Num T
         \<and> \<bar>T - (rt + re + rf)\<bar> \<le> 2 / 100 + 1 / 100000"
    using total_close_to_sum_of_fields [OF _ es fs] by blast
  then obtain rt' re' rf' T' where
    close: "transportEmissions (calculateEmissions light_day) = Num rt'"
      "energyEmissions (calculateEmissions light_day) = Num re'"
      "foodEmissions (calculateEmissions light_day) = Num rf'"
      "totalEmissions (calculateEmissions light_day) = Num T'"
      "\<bar>T' - (rt' + re' + rf')\<bar> \<le> 2 / 100 + 1 / 100000"
    by blast
  have "2 / 100 - 1 / 100000 \<le> \<bar>T' - (rt' + re' + rf')\<bar>"
    using close(1-4) unfolding vals by simp
  with close have "\<exists>rt re rf T.
         transportEmissions (calculateEmissions light_day) = Num rt
         \<and> energyEmissions (calculateEmissions light_day) = Num re
         \<and> foodEmissions (calculateEmissions light_day) = Num rf
         \<and> totalEmissions (calculateEmissions light_day) = Num T
         \<and> \<bar>T - (rt + re + rf)\<bar> \<le> 2 / 100 + 1 / 100000
         \<and> 2 / 100 - 1 / 100000 \<le> \<bar>T - (rt + re + rf)\<bar>"
    by blast
  then show ?thesis
    using vals unfolding lit_059 lit_130 lit_008 lit_195 by simp
qed

subsection \<open>Transport\<close>

text \<open>
  C2: a transport type that the table does not know, with a distance that is not zero,
  should give transport emissions of zero. The calculator of
  \<open>carbonCalculations.ts\<close> does so for the type \<open>plane\<close>; the calculator of the routes
  module, which lacks the test \<open>factor !== undefined\<close>, multiplies \<open>undefined\<close> by the
  distance and returns \<open>NaN\<close> for the transport part and for the total.
\<close>

theorem server_unrecognized_type_NaN:
  "map_of EMISSION_FACTORS_transport ''plane'' = None
   \<and> transportEmissions (calculateEmissions_server plane_trip) = NaN
   \<and> totalEmissions (calculateEmissions_server plane_trip) = NaN
   \<and> transportEmissions (calculateEmissions plane_trip) = Num 0"
  by (simp add: plane_trip_def no_activity_def results_fields transport_section_server_def
      transport_section_client_def transport_factor_def EMISSION_FACTORS_transport_def
      Object_prototype_keys_def energy_section_def food_section_def)

text \<open>
  Beyond the one input: the routes module returns \<open>NaN\<close> as transport emissions for
  every type that is not empty and not in the table, whenever the distance is neither
  zero nor \<open>NaN\<close>. The calculator of \<open>carbonCalculations.ts\<close> returns 0 for such a
  type, unless the type is the name of a property that every object inherits
  (\<open>toString\<close>, \<open>constructor\<close>, ...): then the factor it reads is defined, is not a
  number, and the result is \<open>NaN\<close> as well.
\<close>

lemma server_unrecognized_general:
  assumes "transportType d = Some ty" "ty \<noteq> []" "map_of EMISSION_FACTORS_transport ty = None"
    "transportDistance d = Some x" "truthy x"
  shows "transportEmissions (calculateEmissions_server d) = NaN"
  using assms
  by (simp add: results_fields transport_section_server_def transport_factor_def)

lemma client_unrecognized_general:
  assumes "transportType d = Some ty" "map_of EMISSION_FACTORS_transport ty = None"
    "transportDistance d = Some x" "truthy x"
  shows "transportEmissions (calculateEmissions d) =
           (if ty \<in> set Object_prototype_keys then NaN else Num 0)"
  using assms
  by (auto simp: results_fields transport_section_client_def transport_factor_def
      Object_prototype_keys_def)

text \<open>
  C7, as stated: for a transport type of the table and a distance that is present the
  transport emissions would be \<open>round2\<close> of factor times distance, and 0 for bike and
  walking whatever the distance. An infinite distance by bike gives \<open>NaN\<close>, the product
  of zero and infinity; and a distance that is \<open>NaN\<close> gives 0, because the test
  \<open>if (data.transportType && data.transportDistance)\<close> skips the multiplication, where
  the product would be \<open>NaN\<close>.
\<close>

theorem bike_infinite_distance_NaN:
  "transportEmissions (calculateEmissions
      (no_activity\<lparr> transportType := Some ''bike'', transportDistance := Some PosInfinity \<rparr>))
     = NaN
   \<and> transportEmissions (calculateEmissions_server
      (no_activity\<lparr> transportType := Some ''bike'', transportDistance := Some PosInfinity \<rparr>))
     = NaN
   \<and> transportEmissions (calculateEmissions
      (no_activity\<lparr> transportType := Some ''car_gasoline'', transportDistance := Some NaN \<rparr>))
     = Num 0
   \<and> round2 (js_mul (double_of (39 / 100)) NaN) = NaN"
  by (simp add: results_fields no_activity_def transport_section_client_def
      transport_section_server_def transport_factor_def table_values lit_039)

text \<open>
  C7, amended: for a transport type of the table and a distance that is present and not
  \<open>NaN\<close>, both calculators return \<open>Math.round(factor * distance * 100) / 100\<close>, computed
  in double arithmetic; for a distance that is \<open>NaN\<close> they return 0. Bike and walking
  give 0 for every distance but the two infinite ones, for which they give \<open>NaN\<close>.
\<close>

theorem recognized_transport_emissions:
  assumes "transportType d = Some ty" and "map_of EMISSION_FACTORS_transport ty = Some factor"
    and "transportDistance d = Some x"
  shows "(x \<noteq> NaN \<longrightarrow>
            transportEmissions (calculateEmissions d)
              = js_div (Math_round (js_mul (js_mul factor x) (Num 100))) (Num 100)
            \<and> transportEmissions (calculateEmissions_server d)
              = js_div (Math_round (js_mul (js_mul factor x) (Num 100))) (Num 100))
       \<and> (x = NaN \<longrightarrow>
            transportEmissions (calculateEmissions d) = Num 0
            \<and> transportEmissions (calculateEmissions_server d) = Num 0)
       \<and> (ty = ''bike'' \<or> ty = ''walking'' \<longrightarrow>
            transportEmissions (calculateEmissions d)
              = (if x = PosInfinity \<or> x = NegInfinity then NaN else Num 0)
            \<and> transportEmissions (calculateEmissions_server d)
              = (if x = PosInfinity \<or> x = NegInfinity then NaN else Num 0))"
proof -
  have c: "transportEmissions (calculateEmissions d)
             = round2 (if x = NaN then Num 0 else js_mul factor x)"
    and s: "transportEmissions (calculateEmissions_server d)
             = round2 (if x = NaN then Num 0 else js_mul factor x)"
    using assms
    by (simp_all only: results_fields transport_client_known transport_server_known
        guarded_product)
  have zero: "factor = Num 0" if "ty = ''bike'' \<or> ty = ''walking''"
    using assms(2) that by (auto simp: EMISSION_FACTORS_transport_def)
  have "round2 (if x = NaN then Num 0 else js_mul (Num 0) x)
          = (if x = PosInfinity \<or> x = NegInfinity then NaN else Num 0)"
    by (cases x) (simp_all add: js_mul.simps(1))
  then show ?thesis
    unfolding c s using zero by (auto simp: round2_fold)
qed

theorem recognized_transport_emissions_witness:
  "transportEmissions (calculateEmissions
      (no_activity\<lparr> transportType := Some ''car_gasoline'', transportDistance := Some (Num 100) \<rparr>))
     = Num 39
   \<and> transportEmissions (calculateEmissions
      (no_activity\<lparr> transportType := Some ''train'', transportDistance := Some (Num 5) \<rparr>))
     = double_of (22 / 100)
   \<and> transportEmissions (calculateEmissions_server
      (no_activity\<lparr> transportType := Some ''train'', transportDistance := Some (Num 5) \<rparr>))
     = double_of (22 / 100)
   \<and> double_of (22 / 100) \<noteq> double_of (23 / 100)
   \<and> transportEmissions (calculateEmissions_server
      (no_activity\<lparr> transportType := Some ''bike'', transportDistance := Some (Num 7) \<rparr>))
     = Num 0"
proof -
  define input where
    "input ty x = no_activity\<lparr> transportType := Some ty, transportDistance := Some x \<rparr>"
    for ty :: string and x :: number
  have fields: "transportType (input ty x) = Some ty" "transportDistance (input ty x) = Some x"
    for ty x
    by (simp_all add: input_def no_activity_def)
  have train: "map_of EMISSION_FACTORS_transport ''train'' = Some (Num (3242591731706757 / 72057594037927936))"
    and gasoline: "map_of EMISSION_FACTORS_transport ''car_gasoline'' = Some (Num (3512807709348987 / 9007199254740992))"
    and bike: "map_of EMISSION_FACTORS_transport ''bike'' = Some (Num 0)"
    by (simp_all add: table_values)
  have g1: "js_mul (Num (3512807709348987 / 9007199254740992)) (Num 100) = Num 39"
    by (rule js_mul_Num, rule double_of_abs [where e = "5" and q = "- 47" and m = 5488762045857792]) (simp_all add: pow2_numeral)
  have g2: "round2 (Num 39) = Num 39"
  proof (rule round2_Num [where b = "3900" and n = "3900"])
    show "js_mul (Num 39) (Num 100) = Num 3900"
      by (rule js_mul_Num, rule double_of_abs [where e = "11" and q = "- 41" and m = 8576190696652800]) (simp_all add: pow2_numeral)
    show "js_div (Num (rat_of_int 3900)) (Num 100) = Num 39"
      by (rule js_div_Num, simp, rule double_of_abs [where e = "5" and q = "- 47" and m = 5488762045857792]) (simp_all add: pow2_numeral)
  qed simp_all
  have t1: "js_mul (Num (3242591731706757 / 72057594037927936)) (Num 5) = Num (2026619832316723 / 9007199254740992)"
    by (rule js_mul_Num, rule double_of_abs_tie [where e = "- 3" and q = "- 55" and m = 8106479329266892 and k = 8106479329266892]) (simp_all add: pow2_numeral)
  have t2: "round2 (Num (2026619832316723 / 9007199254740992)) = Num (7926335344172073 / 36028797018963968)"
  proof (rule round2_Num [where b = "6333186975989759 / 281474976710656" and n = "22"])
    show "js_mul (Num (2026619832316723 / 9007199254740992)) (Num 100) = Num (6333186975989759 / 281474976710656)"
      by (rule js_mul_Num, rule double_of_abs [where e = "4" and q = "- 48" and m = 6333186975989759]) (simp_all add: pow2_numeral)
    show "js_div (Num (rat_of_int 22)) (Num 100) = Num (7926335344172073 / 36028797018963968)"
      by (rule js_div_Num, simp, rule double_of_abs [where e = "- 3" and q = "- 55" and m = 7926335344172073]) (simp_all add: pow2_numeral)
  qed simp_all
  from recognized_transport_emissions [OF fields(1) [of "''train''" "Num 5"] train fields(2)]
  have a: "transportEmissions (calculateEmissions (input ''train'' (Num 5))) = double_of (22 / 100)"
    and b: "transportEmissions (calculateEmissions_server (input ''train'' (Num 5)))
              = double_of (22 / 100)"
    unfolding lit_022 by (simp_all add: round2_fold t1 t2)
  from recognized_transport_emissions
    [OF fields(1) [of "''car_gasoline''" "Num 100"] gasoline fields(2)]
  have c: "transportEmissions (calculateEmissions (input ''car_gasoline'' (Num 100))) = Num 39"
    by (simp add: round2_fold g1 g2)
  from recognized_transport_emissions [OF fields(1) [of "''bike''" "Num 7"] bike fields(2)]
  have d: "transportEmissions (calculateEmissions_server (input ''bike'' (Num 7))) = Num 0"
    by (simp add: round2_fold)
  have e: "double_of (22 / 100) \<noteq> double_of (23 / 100)"
    unfolding lit_022 lit_023 by simp
  from a b c d e show ?thesis
    unfolding input_def by blast
qed

subsection \<open>Food\<close>




subsection \<open>Client and server\<close>

text \<open>
  C10: on every input whose transport type is absent or one of the six keys of the
  table, the calculator of \<open>carbonCalculations.ts\<close> and the calculator of the routes
  module return the same record.
\<close>

theorem client_server_agree:
  assumes "transportType d = None
           \<or> (\<exists>ty. transportType d = Some ty \<and> ty \<in> set [''car_gasoline'', ''car_electric'', ''bus'', ''train'', ''bike'', ''walking''])"
  shows "calculateEmissions d = calculateEmissions_server d"
proof -
  from assms have "transportType d = None
     \<or> (\<exists>ty f. transportType d = Some ty \<and> map_of EMISSION_FACTORS_transport ty = Some f)"
    using recognized_has_factor by blast
  then have "transport_section_client d = transport_section_server d"
    by (rule transport_sections_agree)
  then show ?thesis
    by (simp add: calculateEmissions_def calculateEmissions_server_def)
qed

theorem client_server_agree_witness:
  "(let d = no_activity\<lparr> transportType := Some ''bus'', transportDistance := Some (Num 12),
                naturalGasUsage := Some (Num 3), chickenServings := Some (Num 1) \<rparr>
    in calculateEmissions d = calculateEmissions_server d
       \<and> transportEmissions (calculateEmissions d) = double_of (84 / 100)
       \<and> totalEmissions (calculateEmissions_server d) = double_of (1758 / 100))"
proof -
  define d where "d = no_activity\<lparr> transportType := Some ''bus'',
    transportDistance := Some (Num 12), naturalGasUsage := Some (Num 3),
    chickenServings := Some (Num 1) \<rparr>"
  have "transportType d = None
           \<or> (\<exists>ty. transportType d = Some ty \<and> ty \<in> set [''car_gasoline'', ''car_electric'', ''bus'', ''train'', ''bike'', ''walking''])"
    by (simp add: d_def no_activity_def)
  then have eq: "calculateEmissions d = calculateEmissions_server d"
    by (rule client_server_agree)
  have t: "js_mul (Num (1261007895663739 / 18014398509481984)) (Num 12) = Num (3783023686991217 / 4503599627370496)"
    by (rule js_mul_Num, rule double_of_abs [where e = "- 1" and q = "- 53" and m = 7566047373982434]) (simp_all add: pow2_numeral)
  have e: "js_mul (Num (5967269506265907 / 1125899906842624)) (Num 3) = Num (2237726064849715 / 140737488355328)"
    by (rule js_mul_Num, rule double_of_abs_tie [where e = "3" and q = "- 49" and m = 8950904259398860 and k = 8950904259398860]) (simp_all add: pow2_numeral)
  have c0: "js_mul (Num (4728779608739021 / 1125899906842624)) (Num (3602879701896397 / 18014398509481984)) = Num (3783023686991217 / 4503599627370496)"
    by (rule js_mul_Num, rule double_of_abs [where e = "- 1" and q = "- 53" and m = 7566047373982434]) (simp_all add: pow2_numeral)
  have f: "js_mul (Num (3783023686991217 / 4503599627370496)) (Num 1) = Num (3783023686991217 / 4503599627370496)"
    by (rule js_mul_Num, rule double_of_abs [where e = "- 1" and q = "- 53" and m = 7566047373982434]) (simp_all add: pow2_numeral)
  have s1: "js_add (Num (3783023686991217 / 4503599627370496)) (Num (2237726064849715 / 140737488355328)) = Num (4711891110136381 / 281474976710656)"
    by (rule js_add_Num, simp, simp, rule double_of_abs [where e = "4" and q = "- 48" and m = 4711891110136381]) (simp_all add: pow2_numeral)
  have s2: "js_add (Num (4711891110136381 / 281474976710656)) (Num (3783023686991217 / 4503599627370496)) = Num (1237082522643333 / 70368744177664)"
    by (rule js_add_Num, simp, simp, rule double_of_abs [where e = "4" and q = "- 48" and m = 4948330090573332]) (simp_all add: pow2_numeral)
  have rt: "round2 (Num (3783023686991217 / 4503599627370496)) = Num (7566047373982433 / 9007199254740992)"
  proof (rule round2_Num [where b = "5910974510923777 / 70368744177664" and n = "84"])
    show "js_mul (Num (3783023686991217 / 4503599627370496)) (Num 100) = Num (5910974510923777 / 70368744177664)"
      by (rule js_mul_Num, rule double_of_abs [where e = "6" and q = "- 46" and m = 5910974510923777]) (simp_all add: pow2_numeral)
    show "js_div (Num (rat_of_int 84)) (Num 100) = Num (7566047373982433 / 9007199254740992)"
      by (rule js_div_Num, simp, rule double_of_abs [where e = "- 1" and q = "- 53" and m = 7566047373982433]) (simp_all add: pow2_numeral)
  qed simp_all
  have rs: "round2 (Num (1237082522643333 / 70368744177664)) = Num (1237082522643333 / 70368744177664)"
  proof (rule round2_Num [where b = "7731765766520831 / 4398046511104" and n = "1758"])
    show "js_mul (Num (1237082522643333 / 70368744177664)) (Num 100) = Num (7731765766520831 / 4398046511104)"
      by (rule js_mul_Num, rule double_of_abs [where e = "10" and q = "- 42" and m = 7731765766520831]) (simp_all add: pow2_numeral)
    show "js_div (Num (rat_of_int 1758)) (Num 100) = Num (1237082522643333 / 70368744177664)"
      by (rule js_div_Num, simp, rule double_of_abs [where e = "4" and q = "- 48" and m = 4948330090573332]) (simp_all add: pow2_numeral)
  qed simp_all
  have ts: "transport_section_client d = Num (3783023686991217 / 4503599627370496)"
    by (simp add: d_def no_activity_def transport_section_client_def
        transport_factor_def table_values t)
  have es: "energy_section d = Num (2237726064849715 / 140737488355328)"
    by (simp add: d_def no_activity_def energy_section_def factor_values e)
  have fs: "food_section d = Num (3783023686991217 / 4503599627370496)"
    by (simp add: d_def no_activity_def food_section_value amount_def f)
  have "transportEmissions (calculateEmissions d) = double_of (84 / 100)"
    "totalEmissions (calculateEmissions d) = double_of (1758 / 100)"
    unfolding lit_084 lit_1758
    by (simp_all add: results_fields ts es fs s1 s2 rt rs)
  with eq show ?thesis
    unfolding d_def [symmetric] Let_def by simp
qed

section \<open>Properties of the reduction percentage\<close>

lemma js_sub_finite:
  "js_sub (Num a) (Num b) = PosInfinity \<or> js_sub (Num a) (Num b) = NegInfinity
   \<or> (\<exists>c. js_sub (Num a) (Num b) = Num c)"
  by (cases "double_of (a + - b)") (simp_all add: js_sub_def js_add.simps(1))

lemma percentage_integer_or_infinite:
  assumes "0 < a" and "x = PosInfinity \<or> x = NegInfinity \<or> (\<exists>c. x = Num c)"
  shows "(\<exists>p. Math_round (js_mul (js_div x (Num a)) (Num 100)) = Num (of_int p))
    \<or> Math_round (js_mul (js_div x (Num a)) (Num 100)) = PosInfinity
    \<or> Math_round (js_mul (js_div x (Num a)) (Num 100)) = NegInfinity"
proof -
  have q: "js_div x (Num a) = PosInfinity \<or> js_div x (Num a) = NegInfinity
      \<or> (\<exists>c. js_div x (Num a) = Num c)"
    using assms
    by (cases x; cases "double_of (case x of Num c \<Rightarrow> c / a | _ \<Rightarrow> 0)")
       (auto simp: js_div.simps(1))
  have m: "js_mul y (Num 100) = PosInfinity \<or> js_mul y (Num 100) = NegInfinity
      \<or> (\<exists>c. js_mul y (Num 100) = Num c)"
    if "y = PosInfinity \<or> y = NegInfinity \<or> (\<exists>c. y = Num c)" for y
    using that
    by (cases y; cases "double_of (case y of Num c \<Rightarrow> c * 100 | _ \<Rightarrow> 0)")
       (auto simp: js_mul.simps(1) signed_infinity_def)
  have r: "(\<exists>p. Math_round z = Num (of_int p)) \<or> Math_round z = PosInfinity
      \<or> Math_round z = NegInfinity"
    if "z = PosInfinity \<or> z = NegInfinity \<or> (\<exists>c. z = Num c)" for z
    using that by (auto simp: Math_round.simps(1))
  show ?thesis
    by (rule r, rule m, rule q)
qed

text \<open>
  C6: when last month's total is greater than 0, the percentage is
  \<open>Math.round((last - this) / last * 100)\<close>, computed in double arithmetic; when last
  month's total is 0 it is 0 whatever this month's total, so that nothing is ever
  divided by zero. For two finite totals the result is an integer, unless the quotient
  is too large for a double; no error is raised.
\<close>

theorem reductionPercentage_guarded:
  "(js_gt emissionsLastMonth (Num 0) \<longrightarrow>
      reductionPercentage emissionsLastMonth emissionsThisMonth
        = Math_round
            (js_mul
               (js_div (js_sub emissionsLastMonth emissionsThisMonth) emissionsLastMonth)
               (Num 100)))
   \<and> (emissionsLastMonth = Num 0 \<longrightarrow>
        reductionPercentage emissionsLastMonth emissionsThisMonth = Num 0)
   \<and> (\<forall>a b. emissionsLastMonth = Num a \<and> emissionsThisMonth = Num b \<longrightarrow>
        (\<exists>p. reductionPercentage emissionsLastMonth emissionsThisMonth = Num (of_int p))
        \<or> reductionPercentage emissionsLastMonth emissionsThisMonth = PosInfinity
        \<or> reductionPercentage emissionsLastMonth emissionsThisMonth = NegInfinity)"
proof (intro conjI allI impI)
  fix a b
  assume h: "emissionsLastMonth = Num a \<and> emissionsThisMonth = Num b"
  show "(\<exists>p. reductionPercentage emissionsLastMonth emissionsThisMonth = Num (of_int p))
        \<or> reductionPercentage emissionsLastMonth emissionsThisMonth = PosInfinity
        \<or> reductionPercentage emissionsLastMonth emissionsThisMonth = NegInfinity"
  proof (cases "0 < a")
    case True
    from percentage_integer_or_infinite [OF True js_sub_finite [of a b]] h True
    show ?thesis
      by (simp add: reductionPercentage_def)
  next
    case False
    with h have "reductionPercentage emissionsLastMonth emissionsThisMonth = Num (of_int 0)"
      by (simp add: reductionPercentage_def)
    then show ?thesis by blast
  qed
qed (simp_all add: reductionPercentage_def)

theorem reductionPercentage_guarded_witness:
  "reductionPercentage (Num 200) (Num 171) = Num 14
   \<and> reductionPercentage (Num 200) (Num 150) = Num 25
   \<and> reductionPercentage (Num 3) (Num 2) = Num 33
   \<and> reductionPercentage (Num 100) (Num 250) = Num (- 150)
   \<and> reductionPercentage (Num 0) (Num 42) = Num 0"
proof -
  have s1: "js_sub (Num 200) (Num 171) = Num 29"
    by (rule js_sub_Num, simp, simp, rule double_of_abs [where e = "4" and q = "- 48" and m = 8162774324609024]) (simp_all add: pow2_numeral)
  have d1: "js_div (Num 29) (Num 200) = Num (5224175567749775 / 36028797018963968)"
    by (rule js_div_Num, simp, rule double_of_abs [where e = "- 3" and q = "- 55" and m = 5224175567749775]) (simp_all add: pow2_numeral)
  have m1: "js_mul (Num (5224175567749775 / 36028797018963968)) (Num 100) = Num (8162774324609023 / 562949953421312)"
    by (rule js_mul_Num, rule double_of_abs [where e = "3" and q = "- 49" and m = 8162774324609023]) (simp_all add: pow2_numeral)
  have r1: "Math_round (Num (8162774324609023 / 562949953421312)) = Num 14"
    using Math_round_Num [of "14" "8162774324609023 / 562949953421312"] by simp
  have s2: "js_sub (Num 200) (Num 150) = Num 50"
    by (rule js_sub_Num, simp, simp, rule double_of_abs [where e = "5" and q = "- 47" and m = 7036874417766400]) (simp_all add: pow2_numeral)
  have d2: "js_div (Num 50) (Num 200) = Num (1 / 4)"
    by (rule js_div_Num, simp, rule double_of_abs [where e = "- 2" and q = "- 54" and m = 4503599627370496]) (simp_all add: pow2_numeral)
  have m2: "js_mul (Num (1 / 4)) (Num 100) = Num 25"
    by (rule js_mul_Num, rule double_of_abs [where e = "4" and q = "- 48" and m = 7036874417766400]) (simp_all add: pow2_numeral)
  have r2: "Math_round (Num 25) = Num 25"
    using Math_round_Num [of "25" "25"] by simp
  have s3: "js_sub (Num 3) (Num 2) = Num 1"
    by (rule js_sub_Num, simp, simp, rule double_of_abs [where e = "0" and q = "- 52" and m = 4503599627370496]) (simp_all add: pow2_numeral)
  have d3: "js_div (Num 1) (Num 3) = Num (6004799503160661 / 18014398509481984)"
    by (rule js_div_Num, simp, rule double_of_abs [where e = "- 2" and q = "- 54" and m = 6004799503160661]) (simp_all add: pow2_numeral)
  have m3: "js_mul (Num (6004799503160661 / 18014398509481984)) (Num 100) = Num (2345624805922133 / 70368744177664)"
    by (rule js_mul_Num, rule double_of_abs [where e = "5" and q = "- 47" and m = 4691249611844266]) (simp_all add: pow2_numeral)
  have r3: "Math_round (Num (2345624805922133 / 70368744177664)) = Num 33"
    using Math_round_Num [of "33" "2345624805922133 / 70368744177664"] by simp
  have s4: "js_sub (Num 100) (Num 250) = Num (- 150)"
    by (rule js_sub_Num, simp, simp, rule double_of_abs [where e = "7" and q = "- 45" and m = 5277655813324800]) (simp_all add: pow2_numeral)
  have d4: "js_div (Num (- 150)) (Num 100) = Num (- (3 / 2))"
    by (rule js_div_Num, simp, rule double_of_abs [where e = "0" and q = "- 52" and m = 6755399441055744]) (simp_all add: pow2_numeral)
  have m4: "js_mul (Num (- (3 / 2))) (Num 100) = Num (- 150)"
    by (rule js_mul_Num, rule double_of_abs [where e = "7" and q = "- 45" and m = 5277655813324800]) (simp_all add: pow2_numeral)
  have r4: "Math_round (Num (- 150)) = Num (- 150)"
    using Math_round_Num [of "- 150" "- 150"] by simp
  have "reductionPercentage (Num 200) (Num 171) = Num 14"
    using reductionPercentage_guarded [of "Num 200" "Num 171"] by (simp add: s1 d1 m1 r1)
  moreover have "reductionPercentage (Num 200) (Num 150) = Num 25"
    using reductionPercentage_guarded [of "Num 200" "Num 150"] by (simp add: s2 d2 m2 r2)
  moreover have "reductionPercentage (Num 3) (Num 2) = Num 33"
    using reductionPercentage_guarded [of "Num 3" "Num 2"] by (simp add: s3 d3 m3 r3)
  moreover have "reductionPercentage (Num 100) (Num 250) = Num (- 150)"
    using reductionPercentage_guarded [of "Num 100" "Num 250"] by (simp add: s4 d4 m4 r4)
  moreover have "reductionPercentage (Num 0) (Num 42) = Num 0"
    using reductionPercentage_guarded [of "Num 0" "Num 42"] by simp
  ultimately show ?thesis by blast
qed

section \<open>Properties of the storage queries\<close>

subsection \<open>The window of the queries\<close>

lemma toISODate_same_day: "- 1440 < offset \<Longrightarrow> offset \<le> 0 \<Longrightarrow> toISODate day offset = day"
  by (simp add: toISODate_def)

lemma toISODate_day_before: "0 < offset \<Longrightarrow> offset \<le> 1440 \<Longrightarrow> toISODate day offset = day - 1"
  by (simp add: toISODate_def)

lemma window_is_month:
  assumes "- 1440 < offsetFirst srv" "offsetFirst srv \<le> 0"
    and "- 1440 < offsetLast srv" "offsetLast srv \<le> 0"
  shows "startOfMonth srv = monthFirst srv" "endOfMonth srv = monthLast srv"
  using assms by (simp_all add: startOfMonth_def endOfMonth_def toISODate_same_day)

lemma october_windows:
  "startOfMonth october_utc = 1" "endOfMonth october_utc = 31"
  "startOfMonth october_berlin = 0" "endOfMonth october_berlin = 30"
  by (simp_all add: startOfMonth_def endOfMonth_def toISODate_def october_utc_def
      october_berlin_def)

lemma october_months:
  "monthFirst october_utc = 1" "monthLast october_utc = 31"
  "monthFirst october_berlin = 1" "monthLast october_berlin = 31"
  by (simp_all add: october_utc_def october_berlin_def)

subsection \<open>The rows of the leaderboard query\<close>

lemma where_date_between_append:
  "where_date_between lo hi (xs @ ys) = where_date_between lo hi xs @ where_date_between lo hi ys"
  by (simp add: where_date_between_def)

lemma where_date_between_matches:
  "where_date_between lo hi (map (\<lambda>a. (u, Some a)) ms)
     = map (Pair u) (filter (date_between lo hi) ms)"
  by (induction ms) (simp_all add: where_date_between_def)

lemma where_date_between_joined:
  "where_date_between lo hi (case ms of [] \<Rightarrow> [(u, None)] | m # ms' \<Rightarrow> map (\<lambda>a. (u, Some a)) ms)
     = map (Pair u) (filter (date_between lo hi) ms)"
proof (cases ms)
  case Nil
  then show ?thesis by (simp add: where_date_between_def)
next
  case (Cons m ms')
  then show ?thesis
    using where_date_between_matches [of lo hi u ms] by simp
qed

lemma where_date_between_user:
  "where_date_between (startOfMonth srv) (endOfMonth srv)
     (case filter (\<lambda>a. user_id u = act_userId a) (activities db) of
        [] \<Rightarrow> [(u, None)]
      | ms \<Rightarrow> map (\<lambda>a. (u, Some a)) ms)
   = month_rows srv db u"
proof -
  have "(case filter (\<lambda>a. user_id u = act_userId a) (activities db) of
        [] \<Rightarrow> [(u, None)]
      | ms \<Rightarrow> map (\<lambda>a. (u, Some a)) ms)
      = (case filter (\<lambda>a. user_id u = act_userId a) (activities db) of
        [] \<Rightarrow> [(u, None)]
      | m # ms' \<Rightarrow> map (\<lambda>a. (u, Some a)) (filter (\<lambda>a. user_id u = act_userId a) (activities db)))"
    by (simp split: list.split)
  then show ?thesis
    by (simp only: where_date_between_joined month_rows_def filter_filter)
qed

lemma joined_rows:
  "where_date_between (startOfMonth srv) (endOfMonth srv) (left_join us (activities db))
     = concat (map (month_rows srv db) us)"
proof (induction us)
  case Nil
  show ?case by (simp add: left_join_def where_date_between_def)
next
  case (Cons u us)
  have "left_join (u # us) (activities db)
          = (case filter (\<lambda>a. user_id u = act_userId a) (activities db) of
               [] \<Rightarrow> [(u, None)]
             | ms \<Rightarrow> map (\<lambda>a. (u, Some a)) ms) @ left_join us (activities db)"
    by (simp add: left_join_def)
  then show ?case
    by (simp only: where_date_between_append where_date_between_user Cons.IH) simp
qed

lemma set_month_rows:
  "(u', a) \<in> set (month_rows srv db u)
     \<longleftrightarrow> u' = u \<and> a \<in> set (activities db) \<and> user_id u = act_userId a
         \<and> date_between (startOfMonth srv) (endOfMonth srv) a"
  by (auto simp: month_rows_def)

lemma leaderboard_groups_in_window:
  assumes "(u, s) \<in> set (leaderboard_groups srv db)"
  shows "\<exists>a \<in> set (activities db). act_userId a = user_id u
           \<and> date_between (startOfMonth srv) (endOfMonth srv) a"
proof -
  define rows where "rows = concat (map (month_rows srv db) (users db))"
  from assms obtain k grp a rest
    where g: "(k, grp) \<in> set (group_by (\<lambda>(u, a). user_id u) rows)"
      and r: "grp = (u, a) # rest"
    unfolding leaderboard_groups_def joined_rows rows_def [symmetric]
    by (auto split: list.splits)
  from g have "set grp \<subseteq> set rows"
    by (auto simp: group_by_def)
  with r have "(u, a) \<in> set rows" by auto
  then show ?thesis
    by (auto simp: rows_def set_month_rows)
qed

lemma betterUsers_in_window:
  assumes "k \<in> fst ` set (betterUsers srv db bound)"
  shows "\<exists>a \<in> set (activities db). act_userId a = k
           \<and> date_between (startOfMonth srv) (endOfMonth srv) a"
  using assms by (auto simp: betterUsers_def group_by_def)

subsection \<open>Ranking the rows\<close>

lemma length_rank_rows: "length (rank_rows rs) = length rs"
  by (simp add: rank_rows_def)

lemma nth_rank_rows:
  "i < length rs \<Longrightarrow>
   rank_rows rs ! i = \<lparr> entry_user = fst (rs ! i),
                        entry_totalEmissions = or_zero (Some (snd (rs ! i))),
                        entry_rank = i + 1 \<rparr>"
  by (simp add: rank_rows_def)

lemma rank_rows_users: "map entry_user (rank_rows rs) = map fst rs"
  by (rule nth_equalityI; simp add: length_rank_rows nth_rank_rows)

lemma rank_rows_two:
  "rank_rows [(u, x), (v, y)] =
     [\<lparr> entry_user = u, entry_totalEmissions = or_zero (Some x), entry_rank = 1 \<rparr>,
      \<lparr> entry_user = v, entry_totalEmissions = or_zero (Some y), entry_rank = 2 \<rparr>]"
  by (rule nth_equalityI) (auto simp: length_rank_rows nth_rank_rows less_Suc_eq)

lemma rank_rows_one:
  "rank_rows [(u, x)]
     = [\<lparr> entry_user = u, entry_totalEmissions = or_zero (Some x), entry_rank = 1 \<rparr>]"
  by (rule nth_equalityI) (auto simp: length_rank_rows nth_rank_rows)

lemma getLeaderboard_ranked: "\<exists>result. getLeaderboard srv db limit_arg = rank_rows result"
  unfolding getLeaderboard_def Let_def by (rule exI) (rule refl)

lemma entry_users_in_window:
  assumes "e \<in> set (getLeaderboard srv db limit_arg)"
  shows "\<exists>a \<in> set (activities db). act_userId a = user_id (entry_user e)
           \<and> date_between (startOfMonth srv) (endOfMonth srv) a"
proof -
  define limit where "limit = (case limit_arg of None \<Rightarrow> 10 | Some n \<Rightarrow> n)"
  from assms have "entry_user e \<in> set (map entry_user (getLeaderboard srv db limit_arg))"
    by simp
  then have "entry_user e \<in> set (map fst (leaderboard_query srv db limit))"
    by (simp add: getLeaderboard_def Let_def rank_rows_users limit_def)
  then obtain s where "(entry_user e, s) \<in> set (leaderboard_query srv db limit)"
    by auto
  then have "(entry_user e, s) \<in> set (leaderboard_groups srv db)"
    by (auto simp: leaderboard_query_def Let_def split: if_splits dest: in_set_takeD)
  then show ?thesis
    by (rule leaderboard_groups_in_window)
qed

lemma user_id_user_named: "user_id (user_named uid) = uid"
  by (simp add: user_named_def)

lemma user_named_inject: "user_named a = user_named b \<longleftrightarrow> a = b"
  by (auto simp: user_named_def)

subsection \<open>The rank of a user\<close>

text \<open>
  C3: the rank would be 1 plus the number of other users with a record in the current
  calendar month and a lower total for it. On a server in Berlin, in October 2025, user
  A has 5 kg on 15 October and user B has 1 kg on 31 October: B has a record in the
  month and a lower total, so the rank of A should be 2, and on a server whose clock is
  at UTC it is. In Berlin the window of the queries runs from 30 September to 30
  October, because \<open>toISOString\<close> gives the UTC date of local midnight, which is the day
  before; the record of B falls outside, and the rank of A is 1.
\<close>

theorem getUserRank_berlin_misses_last_day:
  "startOfMonth october_berlin = 0 \<and> endOfMonth october_berlin = 30
   \<and> getUserRank october_berlin
        \<lparr> users = [user_named ''A'', user_named ''B''],
          activities = [\<lparr> act_userId = ''A'', act_date = 15, act_totalEmissions = Num 5 \<rparr>,
                        \<lparr> act_userId = ''B'', act_date = 31, act_totalEmissions = Num 1 \<rparr>] \<rparr>
        ''A'' = 1
   \<and> getUserRank october_utc
        \<lparr> users = [user_named ''A'', user_named ''B''],
          activities = [\<lparr> act_userId = ''A'', act_date = 15, act_totalEmissions = Num 5 \<rparr>,
                        \<lparr> act_userId = ''B'', act_date = 31, act_totalEmissions = Num 1 \<rparr>] \<rparr>
        ''A'' = 2"
  by (simp add: october_windows getUserRank_def betterUsers_def group_by_def sql_sum_def
      or_zero_def date_between_def pg_less_def)

subsection \<open>Users without a record in the month\<close>




subsection \<open>The leaderboard\<close>

text \<open>
  C5: the list would hold the users with their totals of the current month in
  ascending order, so that A with 100 kg and B with 50 kg give B with rank 1 and then A
  with rank 2. On a server whose clock is at UTC they do. On the server in Berlin, with
  the 100 kg of A recorded on 31 October and the 50 kg of B on 10 October, the list
  holds B alone: the window of the query ends on 30 October.
\<close>

theorem getLeaderboard_berlin_drops_last_day:
  "getLeaderboard october_berlin
     \<lparr> users = [user_named ''A'', user_named ''B''],
       activities = [\<lparr> act_userId = ''A'', act_date = 31, act_totalEmissions = Num 100 \<rparr>,
                     \<lparr> act_userId = ''B'', act_date = 10, act_totalEmissions = Num 50 \<rparr>] \<rparr>
     None
   = [\<lparr> entry_user = user_named ''B'', entry_totalEmissions = Num 50, entry_rank = 1 \<rparr>]
   \<and> getLeaderboard october_utc
     \<lparr> users = [user_named ''A'', user_named ''B''],
       activities = [\<lparr> act_userId = ''A'', act_date = 31, act_totalEmissions = Num 100 \<rparr>,
                     \<lparr> act_userId = ''B'', act_date = 10, act_totalEmissions = Num 50 \<rparr>] \<rparr>
     None
   = [\<lparr> entry_user = user_named ''B'', entry_totalEmissions = Num 50, entry_rank = 1 \<rparr>,
      \<lparr> entry_user = user_named ''A'', entry_totalEmissions = Num 100, entry_rank = 2 \<rparr>]"
proof -
  define db where "db = \<lparr> users = [user_named ''A'', user_named ''B''],
       activities = [\<lparr> act_userId = ''A'', act_date = 31, act_totalEmissions = Num 100 \<rparr>,
                     \<lparr> act_userId = ''B'', act_date = 10, act_totalEmissions = Num 50 \<rparr>] \<rparr>"
  have berlin: "leaderboard_groups october_berlin db = [(user_named ''B'', Num 50)]"
    by (simp add: leaderboard_groups_def left_join_def where_date_between_def group_by_def
        october_windows date_between_def db_def user_named_def)
  have utc: "leaderboard_groups october_utc db
      = [(user_named ''A'', Num 100), (user_named ''B'', Num 50)]"
    by (simp add: leaderboard_groups_def left_join_def where_date_between_def group_by_def
        october_windows date_between_def db_def user_named_def)
  show ?thesis
    unfolding db_def [symmetric]
    by (simp add: getLeaderboard_def leaderboard_query_def berlin utc rank_rows_two
        rank_rows_one or_zero_def)
qed

text \<open>
  C9, as stated: two users with equal totals for the month would get the same rank in
  the list of \<open>getLeaderboard\<close>. They do not: with two users at 50 each, one gets
  rank 1 and the other rank 2.
\<close>

theorem tied_users_get_different_ranks:
  "getLeaderboard october_utc
     \<lparr> users = [user_named ''A'', user_named ''B''],
       activities = [\<lparr> act_userId = ''A'', act_date = 10, act_totalEmissions = Num 50 \<rparr>,
                     \<lparr> act_userId = ''B'', act_date = 12, act_totalEmissions = Num 50 \<rparr>] \<rparr>
     None
   = [\<lparr> entry_user = user_named ''A'', entry_totalEmissions = Num 50, entry_rank = 1 \<rparr>,
      \<lparr> entry_user = user_named ''B'', entry_totalEmissions = Num 50, entry_rank = 2 \<rparr>]"
proof -
  define db where "db = \<lparr> users = [user_named ''A'', user_named ''B''],
       activities = [\<lparr> act_userId = ''A'', act_date = 10, act_totalEmissions = Num 50 \<rparr>,
                     \<lparr> act_userId = ''B'', act_date = 12, act_totalEmissions = Num 50 \<rparr>] \<rparr>"
  have "leaderboard_groups october_utc db
      = [(user_named ''A'', Num 50), (user_named ''B'', Num 50)]"
    by (simp add: leaderboard_groups_def left_join_def where_date_between_def group_by_def
        october_windows date_between_def db_def user_named_def)
  then show ?thesis
    unfolding db_def [symmetric]
    by (simp add: getLeaderboard_def leaderboard_query_def rank_rows_two or_zero_def)
qed

text \<open>
  C9, amended: in the list of \<open>getLeaderboard\<close> the rank of an entry is its position
  counted from 1, so an entry that comes earlier has a strictly smaller rank, whether
  or not the totals are equal.
\<close>

theorem leaderboard_rank_is_position:
  assumes "getLeaderboard srv db limit_arg = es"
    and "i < j" and "j < length es"
  shows "entry_rank (es ! i) = i + 1 \<and> entry_rank (es ! j) = j + 1
         \<and> entry_rank (es ! i) < entry_rank (es ! j)"
proof -
  from getLeaderboard_ranked [of srv db limit_arg] assms(1)
  obtain result where "es = rank_rows result"
    by auto
  with assms(2,3) show ?thesis
    by (simp add: length_rank_rows nth_rank_rows)
qed

theorem leaderboard_rank_is_position_witness:
  "(let db = \<lparr> users = [user_named ''A'', user_named ''B''],
       activities = [\<lparr> act_userId = ''A'', act_date = 10, act_totalEmissions = Num 50 \<rparr>,
                     \<lparr> act_userId = ''B'', act_date = 12, act_totalEmissions = Num 50 \<rparr>] \<rparr>;
        es = [\<lparr> entry_user = user_named ''A'', entry_totalEmissions = Num 50, entry_rank = 1 \<rparr>,
              \<lparr> entry_user = user_named ''B'', entry_totalEmissions = Num 50, entry_rank = 2 \<rparr>]
    in getLeaderboard october_utc db None = es \<and> (0::nat) < 1 \<and> 1 < length es
       \<and> entry_rank (es ! 0) = 1 \<and> entry_rank (es ! 1) = 2
       \<and> entry_rank (es ! 0) < entry_rank (es ! 1))"
proof -
  define db where "db = \<lparr> users = [user_named ''A'', user_named ''B''],
       activities = [\<lparr> act_userId = ''A'', act_date = 10, act_totalEmissions = Num 50 \<rparr>,
                     \<lparr> act_userId = ''B'', act_date = 12, act_totalEmissions = Num 50 \<rparr>] \<rparr>"
  define es where "es = [\<lparr> entry_user = user_named ''A'', entry_totalEmissions = Num 50, entry_rank = 1 \<rparr>,
              \<lparr> entry_user = user_named ''B'', entry_totalEmissions = Num 50, entry_rank = 2 \<rparr>]"
  have "leaderboard_groups october_utc db
      = [(user_named ''A'', Num 50), (user_named ''B'', Num 50)]"
    by (simp add: leaderboard_groups_def left_join_def where_date_between_def group_by_def
        october_windows date_between_def db_def user_named_def)
  then have run: "getLeaderboard october_utc db None = es"
    by (simp add: getLeaderboard_def leaderboard_query_def rank_rows_two es_def or_zero_def)
  have len: "1 < length es" by (simp add: es_def)
  from leaderboard_rank_is_position [OF run _ len, of 0]
  have "entry_rank (es ! 0) = 0 + 1 \<and> entry_rank (es ! 1) = 1 + 1
         \<and> entry_rank (es ! 0) < entry_rank (es ! 1)"
    by simp
  with run len show ?thesis
    unfolding db_def [symmetric] es_def [symmetric] Let_def by simp
qed

end
